theory Spec2Isabelle
  imports Complex_Main "HOL-Library.AList"
begin

section \<open>The Flask backend of PyWebIO: \<open>pywebio/platform/flask.py\<close>\<close>

text \<open>
  The module keeps two process-wide dictionaries, \<open>_webio_sessions\<close> (session id to
  session object) and \<open>_webio_expire\<close> (session id to last-active timestamp, an
  \<open>LRUDict\<close>), and the timestamp of the last expiry check. The view function
  \<open>_webio_view\<close> handles one HTTP request against them.

  Python names with a leading underscore get the prefix \<open>u_\<close> here
  (\<open>_webio_view\<close> is \<open>u_webio_view\<close>), since an Isabelle name starts with a letter.
\<close>

subsection \<open>Values\<close>

text \<open>
  The exceptions the modelled code can raise. \<open>BadRequest\<close> is what Flask raises when
  \<open>request.json\<close> is read and the body does not decode.
\<close>

datatype py_error = KeyError | TypeError | BadRequest

text \<open>JSON values: the decoded body of a request and the commands of a response.\<close>

datatype json =
    JNull
  | JBool bool
  | JInt int
  | JStr string
  | JList "json list"
  | JDict "(string \<times> json) list"

text \<open>
  The value of a response header set by the code: a string, or the integer of
  \<open>Access-Control-Max-Age\<close>.
\<close>

datatype hval = HStr string | HInt int

text \<open>
  A Python \<open>dict\<close> of headers, in insertion order: \<open>d[k] = v\<close> is \<open>AList.update k v d\<close>,
  which replaces the value of a key in place and appends a new key at the end.
\<close>

type_synonym headers = "(string \<times> hval) list"

text \<open>
  A session object (an instance of the class that \<open>get_session_implement()\<close> returns) is
  known to this module through its identity only; its methods are answered by the
  environment of a request. The task function \<open>target\<close> is opaque as well.
\<close>

type_synonym session = nat
type_synonym target = string

text \<open>Seconds, as \<open>time.time()\<close> returns them (exact rationals in place of floats).\<close>

type_synonym seconds = rat

subsection \<open>Requests, responses, the environment of a request\<close>

text \<open>
  The parts of Flask's \<open>request\<close> that the view reads: \<open>request.method\<close> (the field \<open>req_method\<close>),
  \<open>request.headers\<close>, \<open>request.args\<close> and \<open>request.json\<close>. The field
  \<open>json_body\<close> is what reading \<open>request.json\<close> gives: \<open>Some\<close> of the decoded value
  (\<open>JNull\<close> for Python's \<open>None\<close>), or \<open>None\<close> when the body does not decode and the read
  raises \<open>BadRequest\<close>.
\<close>

record request =
  req_method :: string
  req_headers :: "string \<rightharpoonup> string"
  args :: "string \<rightharpoonup> string"
  json_body :: "json option"

datatype body = Text string | Json json

record response =
  status :: nat
  resp_headers :: headers
  resp_body :: body

text \<open>
  What the world answers while one request is handled: the clock when the request
  arrives, the result of \<open>random_str(24)\<close>, the object that \<open>Session(target)\<close> constructs,
  and the answers of a session object to \<open>get_task_commands()\<close> and \<open>closed()\<close>.
\<close>

record env =
  time_now :: seconds
  random_str :: "nat \<Rightarrow> string"
  Session :: "target \<Rightarrow> session"
  get_task_commands :: "session \<Rightarrow> json list"
  closed :: "session \<Rightarrow> bool"

text \<open>The calls that leave this module, in the order the view makes them.\<close>

datatype effect =
    CreateSession target session
  | SendClientEvent session json
  | Sleep seconds
  | GetTaskCommands session
  | Closed session

subsection \<open>Dictionaries\<close>

text \<open>\<open>d.get(k, default)\<close> and the truth value of \<open>d.get(k)\<close> for a dictionary of strings.\<close>

definition dict_get :: "(string \<rightharpoonup> string) \<Rightarrow> string \<Rightarrow> string \<Rightarrow> string" where
  "dict_get d k dflt = (case d k of None \<Rightarrow> dflt | Some v \<Rightarrow> v)"

definition truthy :: "string option \<Rightarrow> bool" where
  "truthy v = (case v of None \<Rightarrow> False | Some x \<Rightarrow> x \<noteq> [])"

text \<open>\<open>del d[k]\<close> on a plain \<open>dict\<close>: a missing key raises \<open>KeyError\<close>.\<close>

definition dict_delitem :: "'k \<Rightarrow> ('k \<rightharpoonup> 'v) \<Rightarrow> py_error + ('k \<rightharpoonup> 'v)" where
  "dict_delitem k d = (if d k = None then Inl KeyError else Inr (d(k := None)))"

text \<open>
  Modelled from the spec: the class \<open>LRUDict\<close> of \<open>pywebio/utils.py\<close> is not among the
  sources. The spec describes the Recency Tracker as a move-to-end ordered map: records
  are ordered from least recently active (the head) to most recently active (the end),
  and setting a key removes its record and reinserts it at the most recently active
  end. The list below is that order; the other operations are those of Python's
  ordered dictionary.
\<close>

type_synonym lrudict = "(string \<times> seconds) list"

definition lru_setitem :: "string \<Rightarrow> seconds \<Rightarrow> lrudict \<Rightarrow> lrudict" where
  "lru_setitem k v d = filter (\<lambda>p. fst p \<noteq> k) d @ [(k, v)]"

text \<open>\<open>d.popitem(last=False)\<close>: removes and returns the pair at the head.\<close>

definition popitem_first :: "lrudict \<Rightarrow> py_error + ((string \<times> seconds) \<times> lrudict)" where
  "popitem_first d = (case d of [] \<Rightarrow> Inl KeyError | p # ps \<Rightarrow> Inr (p, ps))"

text \<open>\<open>d.move_to_end(k, last=False)\<close>: moves an existing key to the head.\<close>

definition move_to_end_first :: "string \<Rightarrow> lrudict \<Rightarrow> py_error + lrudict" where
  "move_to_end_first k d =
     (case map_of d k of
        None \<Rightarrow> Inl KeyError
      | Some v \<Rightarrow> Inr ((k, v) # filter (\<lambda>p. fst p \<noteq> k) d))"

text \<open>\<open>del d[k]\<close> on the ordered dictionary.\<close>

definition lru_delitem :: "string \<Rightarrow> lrudict \<Rightarrow> py_error + lrudict" where
  "lru_delitem k d =
     (if map_of d k = None then Inl KeyError else Inr (filter (\<lambda>p. fst p \<noteq> k) d))"

subsection \<open>Module state and constants\<close>

record state =
  webio_sessions :: "string \<rightharpoonup> session"
  webio_expire :: lrudict
  last_check_session_expire_ts :: seconds

text \<open>The module as loaded: both dictionaries empty, the last check at 0.\<close>

definition initial_state :: state where
  "initial_state =
     \<lparr>webio_sessions = Map.empty, webio_expire = [], last_check_session_expire_ts = 0\<rparr>"

definition DEFAULT_SESSION_EXPIRE_SECONDS :: seconds where
  "DEFAULT_SESSION_EXPIRE_SECONDS = 60"

definition REMOVE_EXPIRED_SESSIONS_INTERVAL :: seconds where
  "REMOVE_EXPIRED_SESSIONS_INTERVAL = 20"

definition WAIT_MS_ON_POST :: seconds where
  "WAIT_MS_ON_POST = 100"

subsection \<open>\<open>_make_response\<close>, \<open>_remove_expired_sessions\<close>, \<open>_remove_webio_session\<close>\<close>

text \<open>\<open>jsonify(webio_session.get_task_commands())\<close>: status 200, the commands as a JSON list.\<close>

definition jsonify :: "json \<Rightarrow> response" where
  "jsonify v = \<lparr>status = 200, resp_headers = [], resp_body = Json v\<rparr>"

definition u_make_response :: "env \<Rightarrow> session \<Rightarrow> response" where
  "u_make_response e webio_session = jsonify (JList (get_task_commands e webio_session))"

text \<open>
  The loop of \<open>_remove_expired_sessions\<close>. \<open>clock\<close> is what \<open>time.time()\<close> returns while
  the loop runs (the loop itself takes no time). The result is the exception raised, if
  any, and the state the module is left in.
\<close>

function u_remove_expired_sessions :: "seconds \<Rightarrow> seconds \<Rightarrow> state \<Rightarrow> py_error option \<times> state" where
  "u_remove_expired_sessions session_expire_seconds clock s =
     (if webio_expire s = [] then (None, s)
      else
        (case popitem_first (webio_expire s) of
           Inl e \<Rightarrow> (Some e, s)
         | Inr ((sid, active_ts), expire1) \<Rightarrow>
             if clock - active_ts < session_expire_seconds then
               (case move_to_end_first sid (lru_setitem sid active_ts expire1) of
                  Inl e \<Rightarrow> (Some e, s\<lparr>webio_expire := lru_setitem sid active_ts expire1\<rparr>)
                | Inr expire2 \<Rightarrow> (None, s\<lparr>webio_expire := expire2\<rparr>))
             else
               (case dict_delitem sid (webio_sessions s) of
                  Inl e \<Rightarrow> (Some e, s\<lparr>webio_expire := expire1\<rparr>)
                | Inr sessions1 \<Rightarrow>
                    u_remove_expired_sessions session_expire_seconds clock
                      (s\<lparr>webio_expire := expire1, webio_sessions := sessions1\<rparr>))))"
  by pat_completeness auto
termination
  by (relation "measure (\<lambda>(x, c, s). length (webio_expire s))")
     (auto simp: popitem_first_def split: list.splits)

declare u_remove_expired_sessions.simps [simp del]

definition u_remove_webio_session :: "string \<Rightarrow> state \<Rightarrow> py_error option \<times> state" where
  "u_remove_webio_session sid s =
     (case dict_delitem sid (webio_sessions s) of
        Inl e \<Rightarrow> (Some e, s)
      | Inr sessions1 \<Rightarrow>
          (case lru_delitem sid (webio_expire s) of
             Inl e \<Rightarrow> (Some e, s\<lparr>webio_sessions := sessions1\<rparr>)
           | Inr expire1 \<Rightarrow> (None, s\<lparr>webio_sessions := sessions1, webio_expire := expire1\<rparr>)))"

subsection \<open>\<open>cors_headers\<close>\<close>

text \<open>
  \<open>check_origin\<close> is a callable of the caller: it returns a truth value or raises.
  \<open>headers=None\<close> starts from an empty dictionary.
\<close>

definition cors_headers ::
  "string \<Rightarrow> (string \<Rightarrow> py_error + bool) \<Rightarrow> headers option \<Rightarrow> py_error + headers" where
  "cors_headers origin check_origin headers =
     (let headers0 = (case headers of None \<Rightarrow> [] | Some h \<Rightarrow> h) in
      case check_origin origin of
        Inl e \<Rightarrow> Inl e
      | Inr ok \<Rightarrow>
          if ok then
            Inr (AList.update ''Access-Control-Max-Age'' (HInt (1440 * 60))
                (AList.update ''Access-Control-Expose-Headers'' (HStr ''webio-session-id'')
                (AList.update ''Access-Control-Allow-Headers'' (HStr ''content-type, webio-session-id'')
                (AList.update ''Access-Control-Allow-Methods'' (HStr ''GET, POST'')
                (AList.update ''Access-Control-Allow-Origin'' (HStr origin) headers0)))))
          else Inr headers0)"

subsection \<open>\<open>_webio_view\<close>\<close>

text \<open>
  The result of handling a request: the response or the exception that escapes the view,
  the state of the module afterwards, and the calls made to the outside.
\<close>

type_synonym outcome = "(py_error + response) \<times> state \<times> effect list"

text \<open>The loop \<open>for k, v in headers.items(): response.headers[k] = v\<close>.\<close>

definition set_headers :: "response \<Rightarrow> headers \<Rightarrow> response" where
  "set_headers r hs =
     r\<lparr>resp_headers := foldl (\<lambda>rh (k, v). AList.update k v rh) (resp_headers r) hs\<rparr>"

text \<open>
  Lines 119 to 123: on \<open>POST\<close> \<open>request.json\<close> is read, which raises when the body does
  not decode; the decoded event is sent to the session and the worker sleeps
  \<open>WAIT_MS_ON_POST / 1000.0\<close> seconds. Other methods do nothing. The result is the
  exception, or the clock afterwards and the calls made.
\<close>

definition client_push ::
  "env \<Rightarrow> request \<Rightarrow> session \<Rightarrow> py_error + (seconds \<times> effect list)" where
  "client_push e request webio_session =
     (if req_method request = ''POST'' then
        (case json_body request of
           None \<Rightarrow> Inl BadRequest
         | Some event \<Rightarrow>
             Inr (time_now e + WAIT_MS_ON_POST / 1000,
                  [SendClientEvent webio_session event, Sleep (WAIT_MS_ON_POST / 1000)]))
      else Inr (time_now e, []))"

text \<open>Lines 126 to 128: the clean-up, when the last one is more than the interval ago.\<close>

definition clean_up :: "seconds \<Rightarrow> seconds \<Rightarrow> state \<Rightarrow> py_error option \<times> state" where
  "clean_up session_expire_seconds clock s =
     (if clock - last_check_session_expire_ts s > REMOVE_EXPIRED_SESSIONS_INTERVAL
      then (case u_remove_expired_sessions session_expire_seconds clock s of
              (None, s') \<Rightarrow> (None, s'\<lparr>last_check_session_expire_ts := clock\<rparr>)
            | (Some x, s') \<Rightarrow> (Some x, s'))
      else (None, s))"

text \<open>
  Lines 130 to 139: the response is made from the commands of the session, a closed
  session is removed, and the headers are set on the response.
\<close>

definition respond ::
  "env \<Rightarrow> headers \<Rightarrow> string \<Rightarrow> session \<Rightarrow> state \<Rightarrow> (py_error + response) \<times> state" where
  "respond e headers webio_session_id webio_session s =
     (let response = u_make_response e webio_session
      in if closed e webio_session then
           (case u_remove_webio_session webio_session_id s of
              (Some x, s') \<Rightarrow> (Inl x, s')
            | (None, s') \<Rightarrow> (Inr (set_headers response headers), s'))
         else (Inr (set_headers response headers), s))"

text \<open>
  Lines 119 to 139 together, for a resolved session; \<open>fx0\<close> are the calls made before.
\<close>

definition serve_session ::
  "seconds \<Rightarrow> env \<Rightarrow> request \<Rightarrow> headers \<Rightarrow> string \<Rightarrow> session \<Rightarrow> state \<Rightarrow> effect list \<Rightarrow> outcome" where
  "serve_session session_expire_seconds e request headers webio_session_id webio_session s fx0 =
     (case client_push e request webio_session of
        Inl x \<Rightarrow> (Inl x, s, fx0)
      | Inr (clock, fx1) \<Rightarrow>
          (case clean_up session_expire_seconds clock s of
             (Some x, s1) \<Rightarrow> (Inl x, s1, fx0 @ fx1)
           | (None, s1) \<Rightarrow>
               (case respond e headers webio_session_id webio_session s1 of
                  (result, s2) \<Rightarrow>
                    (result, s2,
                     fx0 @ fx1 @ [GetTaskCommands webio_session, Closed webio_session]))))"

text \<open>Lines 106 to 112: a new session under a new id, then the rest of the view.\<close>

definition start_new_session ::
  "target \<Rightarrow> seconds \<Rightarrow> env \<Rightarrow> request \<Rightarrow> headers \<Rightarrow> state \<Rightarrow> outcome" where
  "start_new_session target session_expire_seconds e request headers s =
     (let webio_session_id = random_str e 24;
          headers1 = AList.update ''webio-session-id'' (HStr webio_session_id) headers;
          webio_session = Session e target;
          s1 = s\<lparr>webio_sessions := (webio_sessions s)(webio_session_id \<mapsto> webio_session),
                 webio_expire := lru_setitem webio_session_id (time_now e) (webio_expire s)\<rparr>
      in serve_session session_expire_seconds e request headers1 webio_session_id webio_session s1
           [CreateSession target webio_session])"

definition u_webio_view ::
  "target \<Rightarrow> seconds \<Rightarrow> (string \<Rightarrow> py_error + bool) \<Rightarrow> env \<Rightarrow> request \<Rightarrow> state \<Rightarrow> outcome" where
  "u_webio_view target session_expire_seconds check_origin e request s =
     (if req_method request = ''OPTIONS'' then
        (case cors_headers (dict_get (req_headers request) ''Origin'' '''') check_origin None of
           Inl x \<Rightarrow> (Inl x, s, [])
         | Inr headers \<Rightarrow> (Inr \<lparr>status = 204, resp_headers = headers, resp_body = Text ''''\<rparr>, s, []))
      else
        (case (if truthy (req_headers request ''Origin'')
               then cors_headers (dict_get (req_headers request) ''Origin'' '''') check_origin (Some [])
               else Inr []) of
           Inl x \<Rightarrow> (Inl x, s, [])
         | Inr headers \<Rightarrow>
             if truthy (args request ''test'') then
               (Inr \<lparr>status = 200, resp_headers = headers, resp_body = Text ''ok''\<rparr>, s, [])
             else
               (case req_headers request ''webio-session-id'' of
                  None \<Rightarrow> start_new_session target session_expire_seconds e request headers s
                | Some sid \<Rightarrow>
                    if sid = [] then
                      start_new_session target session_expire_seconds e request headers s
                    else
                      (case webio_sessions s sid of
                         None \<Rightarrow>
                           (Inr (jsonify (JList [JDict [(''command'', JStr ''close_session'')]])), s, [])
                       | Some webio_session \<Rightarrow>
                           serve_session session_expire_seconds e request headers sid webio_session s []))))"

subsection \<open>\<open>webio_view\<close>\<close>

text \<open>
  \<open>webio_view\<close> builds the view. \<open>allowed_origins\<close> and \<open>check_origin\<close> default to \<open>None\<close>;
  without a \<open>check_origin\<close> the predicate is
  \<open>any(fnmatch.fnmatch(origin, patten) for patten in allowed_origins)\<close>, which raises
  \<open>TypeError\<close> when \<open>allowed_origins\<close> is \<open>None\<close>. The library function \<open>fnmatch.fnmatch\<close>
  is a parameter.
\<close>

definition default_check_origin ::
  "(string \<Rightarrow> string \<Rightarrow> bool) \<Rightarrow> string list option \<Rightarrow> string \<Rightarrow> py_error + bool" where
  "default_check_origin fnmatch allowed_origins origin =
     (case allowed_origins of
        None \<Rightarrow> Inl TypeError
      | Some patterns \<Rightarrow> Inr (list_ex (\<lambda>patten. fnmatch origin patten) patterns))"

definition webio_view ::
  "(string \<Rightarrow> string \<Rightarrow> bool) \<Rightarrow> target \<Rightarrow> seconds \<Rightarrow> string list option \<Rightarrow>
   (string \<Rightarrow> py_error + bool) option \<Rightarrow> env \<Rightarrow> request \<Rightarrow> state \<Rightarrow> outcome" where
  "webio_view fnmatch target session_expire_seconds allowed_origins check_origin =
     u_webio_view target session_expire_seconds
       (case check_origin of
          None \<Rightarrow> default_check_origin fnmatch allowed_origins
        | Some c \<Rightarrow> c)"

subsection \<open>Sequences of requests; the invariant of the two dictionaries\<close>

text \<open>Requests handled one after the other by the same view, from a given state.\<close>

fun run_requests ::
  "target \<Rightarrow> seconds \<Rightarrow> (string \<Rightarrow> py_error + bool) \<Rightarrow> (env \<times> request) list \<Rightarrow> state \<Rightarrow> state" where
  "run_requests target x c [] s = s"
| "run_requests target x c ((e, r) # rs) s =
     run_requests target x c rs (fst (snd (u_webio_view target x c e r s)))"

text \<open>
  The keys of \<open>_webio_expire\<close> are those of \<open>_webio_sessions\<close>, each once (the list stands
  for a dictionary).
\<close>

definition paired :: "state \<Rightarrow> bool" where
  "paired s \<longleftrightarrow>
     distinct (map fst (webio_expire s)) \<and> set (map fst (webio_expire s)) = dom (webio_sessions s)"

text \<open>
  The test of the loop of \<open>_remove_expired_sessions\<close>, negated: a record is expired when
  \<open>time.time() - active_ts < session_expire_seconds\<close> is false.
\<close>

definition expired :: "seconds \<Rightarrow> seconds \<Rightarrow> string \<times> seconds \<Rightarrow> bool" where
  "expired thr clock p \<longleftrightarrow> \<not> clock - snd p < thr"

subsection \<open>Example states\<close>

text \<open>Two sessions, the first last active at 0 and the second at 50.\<close>

definition s_two :: state where
  "s_two = \<lparr>webio_sessions = [''T0'' \<mapsto> 0, ''T1'' \<mapsto> 1],
            webio_expire = [(''T0'', 0), (''T1'', 50)],
            last_check_session_expire_ts = 0\<rparr>"

text \<open>A \<open>GET\<close> request with the given headers, no query arguments and no body.\<close>

definition get_request :: "(string \<rightharpoonup> string) \<Rightarrow> request" where
  "get_request hs = \<lparr>req_method = ''GET'', req_headers = hs, args = Map.empty, json_body = Some JNull\<rparr>"

text \<open>
  An environment at time \<open>t\<close> where \<open>random_str(24)\<close> is the 24 letters from a to x, the session
  constructed is object 7, and every session has no commands and is not closed.
\<close>

definition quiet_env :: "seconds \<Rightarrow> env" where
  "quiet_env t = \<lparr>time_now = t, random_str = (\<lambda>n. ''abcdefghijklmnopqrstuvwx''), Session = (\<lambda>target. 7),
                  get_task_commands = (\<lambda>h. []), closed = (\<lambda>h. False)\<rparr>"

text \<open>A \<open>POST\<close> request with the given headers and decoded body.\<close>

definition post_request :: "(string \<rightharpoonup> string) \<Rightarrow> json \<Rightarrow> request" where
  "post_request hs ev = \<lparr>req_method = ''POST'', req_headers = hs, args = Map.empty, json_body = Some ev\<rparr>"

text \<open>The same environment, where every session reports that it is closed.\<close>

definition closing_env :: "seconds \<Rightarrow> env" where
  "closing_env t = (quiet_env t)\<lparr>closed := (\<lambda>h. True)\<rparr>"

text \<open>
  The module after one session was created at time 0 under the id that
  \<open>random_str(24)\<close> returns in the environments above.
\<close>

definition s_created :: state where
  "s_created = \<lparr>webio_sessions = [''abcdefghijklmnopqrstuvwx'' \<mapsto> 7],
      webio_expire = [(''abcdefghijklmnopqrstuvwx'', 0)],
      last_check_session_expire_ts = 0\<rparr>"

section \<open>Properties\<close>

subsection \<open>The ordered dictionary and the sweep\<close>

lemma lru_setitem_fresh_key:
  "k \<notin> fst ` set d \<Longrightarrow> lru_setitem k v d = d @ [(k, v)]"
  by (induction d) (auto simp: lru_setitem_def)

lemma filter_fst_absent:
  "k \<notin> fst ` set d \<Longrightarrow> filter (\<lambda>p. fst p \<noteq> k) d = d"
  by (induction d) auto

lemma reinsert_at_head:
  assumes "k \<notin> fst ` set d"
  shows "move_to_end_first k (lru_setitem k v d) = Inr ((k, v) # d)"
proof -
  have "map_of d k = None" using assms by (simp add: map_of_eq_None_iff)
  then show ?thesis using assms
    by (simp add: move_to_end_first_def lru_setitem_fresh_key map_add_def filter_fst_absent)
qed

lemma sweep_prefix:
  "distinct (map fst (webio_expire s)) \<Longrightarrow> fst ` set (webio_expire s) \<subseteq> dom (webio_sessions s) \<Longrightarrow>
   u_remove_expired_sessions thr clock s =
     (None, s\<lparr>webio_expire := dropWhile (expired thr clock) (webio_expire s),
              webio_sessions := (\<lambda>t. if t \<in> fst ` set (takeWhile (expired thr clock) (webio_expire s))
                                      then None else webio_sessions s t)\<rparr>)"
proof (induction thr clock s rule: u_remove_expired_sessions.induct)
  case (1 thr clock s)
  show ?case
  proof (cases "webio_expire s")
    case Nil
    then show ?thesis
      by (subst u_remove_expired_sessions.simps) simp
  next
    case (Cons p rest)
    obtain sid ts where p: "p = (sid, ts)" by (cases p)
    from 1(2,3) Cons p have fresh_key: "sid \<notin> fst ` set rest" and dist: "distinct (map fst rest)"
      and sub: "fst ` set rest \<subseteq> dom (webio_sessions s)" and present: "webio_sessions s sid \<noteq> None"
      by auto
    show ?thesis
    proof (cases "clock - ts < thr")
      case True
      then show ?thesis using Cons p fresh_key
        by (subst u_remove_expired_sessions.simps)
           (simp add: popitem_first_def reinsert_at_head expired_def)
    next
      case False
      let ?s1 = "s\<lparr>webio_expire := rest, webio_sessions := (webio_sessions s)(sid := None)\<rparr>"
      have del: "dict_delitem sid (webio_sessions s) = Inr ((webio_sessions s)(sid := None))"
        using present by (simp add: dict_delitem_def)
      have pop: "popitem_first (webio_expire s) = Inr ((sid, ts), rest)"
        using Cons p by (simp add: popitem_first_def)
      have ne: "webio_expire s \<noteq> []" using Cons by simp
      have IH: "u_remove_expired_sessions thr clock ?s1 =
         (None, ?s1\<lparr>webio_expire := dropWhile (expired thr clock) (webio_expire ?s1),
              webio_sessions := (\<lambda>t. if t \<in> fst ` set (takeWhile (expired thr clock) (webio_expire ?s1))
                                      then None else webio_sessions ?s1 t)\<rparr>)"
      proof (rule "1.IH"[OF ne pop refl refl False del])
        show "distinct (map fst (webio_expire ?s1))" using dist by simp
        show "fst ` set (webio_expire ?s1) \<subseteq> dom (webio_sessions ?s1)"
          using sub fresh_key by auto
      qed
      have "u_remove_expired_sessions thr clock s = u_remove_expired_sessions thr clock ?s1"
        using ne pop False del by (subst u_remove_expired_sessions.simps) simp
      also note IH
      finally have run: "u_remove_expired_sessions thr clock s =
         (None, ?s1\<lparr>webio_expire := dropWhile (expired thr clock) (webio_expire ?s1),
              webio_sessions := (\<lambda>t. if t \<in> fst ` set (takeWhile (expired thr clock) (webio_expire ?s1))
                                      then None else webio_sessions ?s1 t)\<rparr>)" .
      have tw: "takeWhile (expired thr clock) (webio_expire s) = (sid, ts) # takeWhile (expired thr clock) rest"
        and dw: "dropWhile (expired thr clock) (webio_expire s) = dropWhile (expired thr clock) rest"
        using Cons p False by (simp_all add: expired_def)
      show ?thesis unfolding run
        by (rule arg_cong[where f="Pair None"], rule state.equality)
           (auto simp: tw dw fun_eq_iff)
    qed
  qed
qed


lemma sorted_dropWhile_filter:
  "sorted (map snd d) \<Longrightarrow>
   dropWhile (expired thr clock) d = filter (\<lambda>p. \<not> expired thr clock p) d"
proof (induction d)
  case Nil
  then show ?case by simp
next
  case (Cons p d)
  show ?case
  proof (cases "expired thr clock p")
    case True
    then show ?thesis using Cons by simp
  next
    case False
    have "\<forall>q \<in> set d. \<not> expired thr clock q"
      using Cons.prems False by (auto simp: expired_def)
    then have "filter (\<lambda>q. \<not> expired thr clock q) d = d"
      by (simp add: filter_id_conv)
    then show ?thesis using False by simp
  qed
qed

lemma sorted_takeWhile_filter:
  "sorted (map snd d) \<Longrightarrow>
   takeWhile (expired thr clock) d = filter (expired thr clock) d"
proof (induction d)
  case Nil
  then show ?case by simp
next
  case (Cons p d)
  show ?case
  proof (cases "expired thr clock p")
    case True
    then show ?thesis using Cons by simp
  next
    case False
    have "\<forall>q \<in> set d. \<not> expired thr clock q"
      using Cons.prems False by (auto simp: expired_def)
    then have "filter (expired thr clock) d = []"
      by (simp add: filter_empty_conv)
    then show ?thesis using False by simp
  qed
qed

lemma paired_subset: "paired s \<Longrightarrow> fst ` set (webio_expire s) \<subseteq> dom (webio_sessions s)"
  by (auto simp: paired_def)

lemma sweep_paired:
  assumes "paired s"
  shows "fst (u_remove_expired_sessions thr clock s) = None"
    and "paired (snd (u_remove_expired_sessions thr clock s))"
    and "last_check_session_expire_ts (snd (u_remove_expired_sessions thr clock s)) =
         last_check_session_expire_ts s"
proof -
  let ?d = "webio_expire s"
  have d: "distinct (map fst ?d)" and k: "set (map fst ?d) = dom (webio_sessions s)"
    using assms by (simp_all add: paired_def)
  note run = sweep_prefix[OF d paired_subset[OF assms], of thr clock]
  show "fst (u_remove_expired_sessions thr clock s) = None" by (simp add: run)
  show "last_check_session_expire_ts (snd (u_remove_expired_sessions thr clock s)) =
         last_check_session_expire_ts s" by (simp add: run)
  have split: "?d = takeWhile (expired thr clock) ?d @ dropWhile (expired thr clock) ?d"
    by simp
  have dist2: "distinct (map fst (takeWhile (expired thr clock) ?d) @ map fst (dropWhile (expired thr clock) ?d))"
    using d by (metis map_append split)
  then have disj: "fst ` set (takeWhile (expired thr clock) ?d) \<inter> fst ` set (dropWhile (expired thr clock) ?d) = {}"
    and dd: "distinct (map fst (dropWhile (expired thr clock) ?d))"
    by auto
  have un: "fst ` set (takeWhile (expired thr clock) ?d) \<union> fst ` set (dropWhile (expired thr clock) ?d) = dom (webio_sessions s)"
    using k by (metis image_Un set_append set_map split)
  show "paired (snd (u_remove_expired_sessions thr clock s))"
    unfolding run paired_def using dd disj un
    by (auto simp: dom_def split: if_splits)
qed


subsection \<open>C2: the expiry sweep\<close>

text \<open>
  C2. When the keys of the two dictionaries agree and the records are in recency order
  (timestamps ascending from the head), \<open>_remove_expired_sessions\<close> raises nothing and
  removes all and only the sessions whose idle time \<open>clock - active_ts\<close> is not below
  \<open>session_expire_seconds\<close>: the records that stay are exactly those with idle time below
  the threshold, in their order, and a session object is removed exactly when its
  record is expired.
\<close>

theorem remove_expired_sessions_all_and_only:
  assumes "paired s" and "sorted (map snd (webio_expire s))"
  shows "fst (u_remove_expired_sessions session_expire_seconds clock s) = None \<and>
         webio_expire (snd (u_remove_expired_sessions session_expire_seconds clock s)) =
           filter (\<lambda>(sid, active_ts). clock - active_ts < session_expire_seconds) (webio_expire s) \<and>
         webio_sessions (snd (u_remove_expired_sessions session_expire_seconds clock s)) =
           (\<lambda>sid. case map_of (webio_expire s) sid of
                     None \<Rightarrow> webio_sessions s sid
                   | Some active_ts \<Rightarrow>
                       if clock - active_ts < session_expire_seconds then webio_sessions s sid
                       else None)"
proof -
  let ?d = "webio_expire s"
  let ?ex = "expired session_expire_seconds clock"
  have d: "distinct (map fst ?d)"
    using assms(1) by (simp add: paired_def)
  note run = sweep_prefix[OF d paired_subset[OF assms(1)], of session_expire_seconds clock]
  have e: "dropWhile ?ex ?d = filter (\<lambda>(sid, active_ts). clock - active_ts < session_expire_seconds) ?d"
    unfolding sorted_dropWhile_filter[OF assms(2)]
    by (rule filter_cong) (auto simp: expired_def)
  have m: "(t \<in> fst ` set (takeWhile ?ex ?d)) =
           (case map_of ?d t of None \<Rightarrow> False | Some ts \<Rightarrow> \<not> clock - ts < session_expire_seconds)" for t
  proof (cases "map_of ?d t")
    case None
    then have "t \<notin> fst ` set ?d" by (simp add: map_of_eq_None_iff)
    then have "t \<notin> fst ` set (takeWhile ?ex ?d)"
      using set_takeWhileD by fastforce
    then show ?thesis using None by simp
  next
    case (Some ts)
    have "(t \<in> fst ` set (filter ?ex ?d)) = (\<not> clock - ts < session_expire_seconds)"
    proof
      assume "t \<in> fst ` set (filter ?ex ?d)"
      then obtain ts' where "(t, ts') \<in> set ?d" "?ex (t, ts')" by auto
      then show "\<not> clock - ts < session_expire_seconds"
        using Some d by (auto simp: expired_def)
    next
      assume "\<not> clock - ts < session_expire_seconds"
      moreover have "(t, ts) \<in> set ?d" using Some by (rule map_of_SomeD)
      ultimately show "t \<in> fst ` set (filter ?ex ?d)"
        by (force simp: expired_def)
    qed
    then show ?thesis using Some by (simp add: sorted_takeWhile_filter[OF assms(2)])
  qed
  show ?thesis
    unfolding run by (auto simp: e m fun_eq_iff split: option.splits)
qed

theorem remove_expired_sessions_all_and_only_witness:
  "paired s_two \<and> sorted (map snd (webio_expire s_two)) \<and>
   fst (u_remove_expired_sessions 60 70 s_two) = None \<and>
   webio_expire (snd (u_remove_expired_sessions 60 70 s_two)) = [(''T1'', 50)] \<and>
   webio_sessions (snd (u_remove_expired_sessions 60 70 s_two)) ''T0'' = None \<and>
   webio_sessions (snd (u_remove_expired_sessions 60 70 s_two)) ''T1'' = Some 1"
proof -
  have p: "paired s_two" by (auto simp: paired_def s_two_def)
  have o: "sorted (map snd (webio_expire s_two))" by (simp add: s_two_def)
  show ?thesis
    using p o remove_expired_sessions_all_and_only[OF p o, of 60 70]
    by (simp add: s_two_def)
qed

subsection \<open>C7: the headers of \<open>cors_headers\<close>\<close>

text \<open>
  C7. For every origin and predicate: when the predicate approves the origin,
  \<open>cors_headers\<close> called without a dictionary (or with an empty one) returns exactly
  \<open>Access-Control-Allow-Origin\<close> set to the origin, \<open>Access-Control-Allow-Methods\<close> with
  GET and POST, \<open>Access-Control-Allow-Headers\<close> with content-type and webio-session-id,
  \<open>Access-Control-Expose-Headers\<close> with webio-session-id, and \<open>Access-Control-Max-Age\<close>
  of 24 hours in seconds; called with a dictionary it sets these five keys in it. When
  the predicate rejects the origin, the dictionary it was given is returned unchanged
  (an empty one when none was given).
\<close>

theorem cors_headers_approve_reject:
  "(check_origin origin = Inr True \<longrightarrow>
      cors_headers origin check_origin None =
        Inr [(''Access-Control-Allow-Origin'', HStr origin),
             (''Access-Control-Allow-Methods'', HStr ''GET, POST''),
             (''Access-Control-Allow-Headers'', HStr ''content-type, webio-session-id''),
             (''Access-Control-Expose-Headers'', HStr ''webio-session-id''),
             (''Access-Control-Max-Age'', HInt (24 * 60 * 60))] \<and>
      cors_headers origin check_origin (Some []) = cors_headers origin check_origin None \<and>
      (\<exists>hs'. cors_headers origin check_origin (Some hs) = Inr hs' \<and>
         map_of hs' = map_of hs ++ map_of
            [(''Access-Control-Allow-Origin'', HStr origin),
             (''Access-Control-Allow-Methods'', HStr ''GET, POST''),
             (''Access-Control-Allow-Headers'', HStr ''content-type, webio-session-id''),
             (''Access-Control-Expose-Headers'', HStr ''webio-session-id''),
             (''Access-Control-Max-Age'', HInt (24 * 60 * 60))])) \<and>
   (check_origin origin = Inr False \<longrightarrow>
      cors_headers origin check_origin None = Inr [] \<and>
      cors_headers origin check_origin (Some hs) = Inr hs)"
  by (auto simp: cors_headers_def update_conv fun_eq_iff map_add_def)

theorem cors_headers_approve_reject_witness:
  "cors_headers ''https://a.example.com'' (\<lambda>origin. Inr (origin = ''https://a.example.com'')) None =
     Inr [(''Access-Control-Allow-Origin'', HStr ''https://a.example.com''),
          (''Access-Control-Allow-Methods'', HStr ''GET, POST''),
          (''Access-Control-Allow-Headers'', HStr ''content-type, webio-session-id''),
          (''Access-Control-Expose-Headers'', HStr ''webio-session-id''),
          (''Access-Control-Max-Age'', HInt 86400)] \<and>
   cors_headers ''https://evil.com'' (\<lambda>origin. Inr (origin = ''https://a.example.com'')) None = Inr []"
  using cors_headers_approve_reject
          [of "\<lambda>origin. Inr (origin = ''https://a.example.com'')" "''https://a.example.com''" "[]"]
        cors_headers_approve_reject
          [of "\<lambda>origin. Inr (origin = ''https://a.example.com'')" "''https://evil.com''" "[]"]
  by simp

subsection \<open>C10: the default predicate without \<open>allowed_origins\<close>\<close>

text \<open>
  C10. A view built by \<open>webio_view\<close> with \<open>allowed_origins\<close> and \<open>check_origin\<close> both
  \<open>None\<close> raises \<open>TypeError\<close> on every \<open>OPTIONS\<close> request and on every request with a
  non-empty \<open>Origin\<close> header: no response is returned, the state is untouched and no
  session is called.
\<close>

theorem default_check_origin_raises:
  assumes "req_method request = ''OPTIONS'' \<or> truthy (req_headers request ''Origin'')"
  shows "webio_view fnmatch target session_expire_seconds None None e request s =
           (Inl TypeError, s, [])"
  using assms
  by (auto simp: webio_view_def u_webio_view_def default_check_origin_def cors_headers_def)

theorem default_check_origin_raises_witness:
  "webio_view (\<lambda>name pat. name = pat) ''task'' 60 None None (quiet_env 100)
      (get_request [''Origin'' \<mapsto> ''https://a.example.com'']) initial_state =
   (Inl TypeError, initial_state, []) \<and>
   webio_view (\<lambda>name pat. name = pat) ''task'' 60 None None (quiet_env 100)
      ((get_request Map.empty)\<lparr>req_method := ''OPTIONS''\<rparr>) initial_state =
   (Inl TypeError, initial_state, [])"
  using default_check_origin_raises
          [of "get_request [''Origin'' \<mapsto> ''https://a.example.com'']" "\<lambda>name pat. name = pat"
              "''task''" 60 "quiet_env 100" initial_state]
        default_check_origin_raises
          [of "(get_request Map.empty)\<lparr>req_method := ''OPTIONS''\<rparr>" "\<lambda>name pat. name = pat"
              "''task''" 60 "quiet_env 100" initial_state]
  by (simp add: get_request_def truthy_def)

subsection \<open>C3: a session id that is not registered\<close>



subsection \<open>C4: the headers of the response for an unregistered id\<close>

text \<open>
  C4. The claim is that every branch that returns a response attaches the computed CORS
  headers, the branch for an unregistered id included. The code returns
  \<open>jsonify([dict(command='close_session')])\<close> at once: for an approved origin the five
  headers are computed and the response carries none of them, while the \<open>test\<close> branch
  on the same request attaches them.
\<close>

theorem stale_token_drops_cors_headers:
  "u_webio_view ''task'' 60 (\<lambda>origin. Inr True) (quiet_env 100)
      (get_request [''Origin'' \<mapsto> ''https://a.example.com'', ''webio-session-id'' \<mapsto> ''gone''])
      initial_state =
   (Inr \<lparr>status = 200, resp_headers = [],
         resp_body = Json (JList [JDict [(''command'', JStr ''close_session'')]])\<rparr>,
    initial_state, []) \<and>
   cors_headers ''https://a.example.com'' (\<lambda>origin. Inr True) (Some []) =
     Inr [(''Access-Control-Allow-Origin'', HStr ''https://a.example.com''),
          (''Access-Control-Allow-Methods'', HStr ''GET, POST''),
          (''Access-Control-Allow-Headers'', HStr ''content-type, webio-session-id''),
          (''Access-Control-Expose-Headers'', HStr ''webio-session-id''),
          (''Access-Control-Max-Age'', HInt 86400)] \<and>
   u_webio_view ''task'' 60 (\<lambda>origin. Inr True) (quiet_env 100)
      ((get_request [''Origin'' \<mapsto> ''https://a.example.com'', ''webio-session-id'' \<mapsto> ''gone''])
         \<lparr>args := [''test'' \<mapsto> ''1'']\<rparr>)
      initial_state =
   (Inr \<lparr>status = 200,
         resp_headers =
           [(''Access-Control-Allow-Origin'', HStr ''https://a.example.com''),
            (''Access-Control-Allow-Methods'', HStr ''GET, POST''),
            (''Access-Control-Allow-Headers'', HStr ''content-type, webio-session-id''),
            (''Access-Control-Expose-Headers'', HStr ''webio-session-id''),
            (''Access-Control-Max-Age'', HInt 86400)],
         resp_body = Text ''ok''\<rparr>,
    initial_state, [])"
  by (simp add: u_webio_view_def cors_headers_def jsonify_def get_request_def truthy_def
        dict_get_def initial_state_def)

subsection \<open>C8: the two dictionaries have the same keys\<close>

lemma paired_insert:
  assumes "paired s"
  shows "paired (s\<lparr>webio_sessions := (webio_sessions s)(k \<mapsto> h),
                    webio_expire := lru_setitem k v (webio_expire s)\<rparr>)"
proof -
  have "distinct (map fst (filter (\<lambda>p. fst p \<noteq> k) (webio_expire s)))"
    using assms by (simp add: paired_def distinct_map_filter)
  moreover have "fst ` set (webio_expire s) = dom (webio_sessions s)"
    using assms by (simp add: paired_def)
  ultimately show ?thesis
    by (auto simp: paired_def lru_setitem_def)
qed

lemma paired_last_check:
  "paired (s\<lparr>last_check_session_expire_ts := c\<rparr>) = paired s"
  by (simp add: paired_def)

lemma remove_paired:
  assumes "paired s"
  shows "paired (snd (u_remove_webio_session sid s))"
proof (cases "webio_sessions s sid")
  case None
  then show ?thesis using assms
    by (simp add: u_remove_webio_session_def dict_delitem_def)
next
  case (Some h)
  have k: "fst ` set (webio_expire s) = dom (webio_sessions s)"
    and d: "distinct (map fst (webio_expire s))"
    using assms by (simp_all add: paired_def)
  have "sid \<in> fst ` set (webio_expire s)" using Some k by auto
  then have m: "map_of (webio_expire s) sid \<noteq> None" by (simp add: map_of_eq_None_iff)
  have "distinct (map fst (filter (\<lambda>p. fst p \<noteq> sid) (webio_expire s)))"
    using d by (simp add: distinct_map_filter)
  then show ?thesis using Some m k
    by (auto simp: u_remove_webio_session_def dict_delitem_def lru_delitem_def paired_def)
qed

lemma clean_up_paired:
  assumes "paired s"
  shows "fst (clean_up x c s) = None" and "paired (snd (clean_up x c s))"
proof -
  obtain err s' where r: "u_remove_expired_sessions x c s = (err, s')"
    by (cases "u_remove_expired_sessions x c s")
  have "err = None" and "paired s'"
    using sweep_paired(1,2)[OF assms, of x c] r by simp_all
  then show "fst (clean_up x c s) = None" and "paired (snd (clean_up x c s))"
    using assms r by (simp_all add: clean_up_def paired_last_check)
qed

lemma respond_paired:
  assumes "paired s"
  shows "paired (snd (respond e hs sid h s))"
proof -
  obtain err s' where r: "u_remove_webio_session sid s = (err, s')"
    by (cases "u_remove_webio_session sid s")
  have "paired s'" using remove_paired[OF assms, of sid] r by simp
  then show ?thesis using assms r
    by (cases err) (simp_all add: respond_def Let_def)
qed

lemma serve_session_paired:
  assumes "paired s"
  shows "paired (fst (snd (serve_session x e r hs sid h s fx0)))"
proof (cases "client_push e r h")
  case (Inl err)
  then show ?thesis using assms by (simp add: serve_session_def)
next
  case (Inr p)
  obtain clock fx1 where c: "client_push e r h = Inr (clock, fx1)"
    using Inr by (cases p) simp
  obtain s1 where u: "clean_up x clock s = (None, s1)" and p1: "paired s1"
    using clean_up_paired[OF assms, of x clock] by (cases "clean_up x clock s") auto
  obtain res s2 where f: "respond e hs sid h s1 = (res, s2)"
    by (cases "respond e hs sid h s1")
  have "paired s2" using respond_paired[OF p1, of e hs sid h] f by simp
  then show ?thesis by (simp add: serve_session_def c u f)
qed

lemma start_new_session_paired:
  assumes "paired s"
  shows "paired (fst (snd (start_new_session target x e r hs s)))"
  unfolding start_new_session_def Let_def
  by (rule serve_session_paired, rule paired_insert, rule assms)

lemma u_webio_view_paired:
  assumes "paired s"
  shows "paired (fst (snd (u_webio_view target x c e r s)))"
  using assms serve_session_paired[OF assms] start_new_session_paired[OF assms]
  by (simp add: u_webio_view_def split: sum.splits option.splits)

lemma run_requests_paired:
  "paired s \<Longrightarrow> paired (run_requests target x c rs s)"
proof (induction rs arbitrary: s)
  case Nil
  then show ?case by simp
next
  case (Cons a rs)
  obtain e r where a: "a = (e, r)" by (cases a)
  show ?case unfolding a run_requests.simps
    by (rule Cons.IH, rule u_webio_view_paired, rule Cons.prems)
qed

lemma paired_initial_state: "paired initial_state"
  by (simp add: paired_def initial_state_def)

text \<open>
  C8. After any sequence of requests handled one after the other, starting from the
  module as loaded, a token has a timestamp in \<open>_webio_expire\<close> if and only if it has a
  session object in \<open>_webio_sessions\<close>. This covers every path of the view: creation of a
  session, the sweep, the removal of a closed session, and the requests that end in an
  exception.
\<close>

theorem expire_record_iff_session:
  "(map_of (webio_expire (run_requests target session_expire_seconds check_origin rs initial_state)) t
      \<noteq> None) =
   (webio_sessions (run_requests target session_expire_seconds check_origin rs initial_state) t
      \<noteq> None)"
proof -
  let ?s = "run_requests target session_expire_seconds check_origin rs initial_state"
  have "paired ?s" by (rule run_requests_paired, rule paired_initial_state)
  then have "fst ` set (webio_expire ?s) = dom (webio_sessions ?s)"
    by (simp add: paired_def)
  then show ?thesis
    by (simp add: map_of_eq_None_iff dom_def set_eq_iff)
qed

subsection \<open>C9: what the view calls on \<open>POST\<close> and on \<open>GET\<close>\<close>

lemma serve_session_effects:
  assumes "paired s" and "client_push e r h = Inr (clock, fx1)"
  shows "snd (snd (serve_session x e r hs sid h s fx0)) =
           fx0 @ fx1 @ [GetTaskCommands h, Closed h]"
proof -
  obtain s1 where u: "clean_up x clock s = (None, s1)"
    using clean_up_paired(1)[OF assms(1), of x clock] by (cases "clean_up x clock s") auto
  obtain res s2 where f: "respond e hs sid h s1 = (res, s2)"
    by (cases "respond e hs sid h s1")
  show ?thesis by (simp add: serve_session_def assms(2) u f)
qed

lemma serve_session_bad_request:
  assumes "client_push e r h = Inl err"
  shows "serve_session x e r hs sid h s fx0 = (Inl err, s, fx0)"
  using assms by (simp add: serve_session_def)

lemma origin_headers_ok:
  assumes "\<not> truthy (req_headers r ''Origin'') \<or>
           (\<exists>ok. c (dict_get (req_headers r) ''Origin'' []) = Inr ok)"
  shows "\<exists>hs. (if truthy (req_headers r ''Origin'')
               then cors_headers (dict_get (req_headers r) ''Origin'' []) c (Some [])
               else Inr []) = Inr hs"
  using assms by (auto simp: cors_headers_def)

lemma view_new_session:
  assumes "req_method r \<noteq> ''OPTIONS''" and "\<not> truthy (args r ''test'')"
    and "\<not> truthy (req_headers r ''webio-session-id'')"
    and "(if truthy (req_headers r ''Origin'')
          then cors_headers (dict_get (req_headers r) ''Origin'' []) c (Some [])
          else Inr []) = Inr hs"
  shows "u_webio_view target x c e r s = start_new_session target x e r hs s"
  using assms by (auto simp: u_webio_view_def truthy_def split: option.splits)

lemma view_resume_session:
  assumes "req_method r \<noteq> ''OPTIONS''" and "\<not> truthy (args r ''test'')"
    and "req_headers r ''webio-session-id'' = Some sid" and "sid \<noteq> []"
    and "webio_sessions s sid = Some h"
    and "(if truthy (req_headers r ''Origin'')
          then cors_headers (dict_get (req_headers r) ''Origin'' []) c (Some [])
          else Inr []) = Inr hs"
  shows "u_webio_view target x c e r s = serve_session x e r hs sid h s []"
  using assms by (auto simp: u_webio_view_def)

text \<open>
  C9. For a request that reaches a session (a new one, or the one registered under its
  \<open>webio-session-id\<close>), with the keys of the two dictionaries in agreement: on \<open>POST\<close> with
  a body that decodes to an event, the view calls \<open>send_client_event\<close> with that event,
  then sleeps \<open>WAIT_MS_ON_POST / 1000\<close> seconds (0.1 s), and only then collects the
  commands of the session; on any other method (\<open>GET\<close>) it sends no event and does not
  sleep. On \<open>POST\<close> with a body that does not decode, reading \<open>request.json\<close> raises
  before anything is sent to the session.
\<close>

theorem post_event_then_wait_then_collect:
  assumes "paired s"
    and "req_method request \<noteq> ''OPTIONS''"
    and "\<not> truthy (args request ''test'')"
    and "\<not> truthy (req_headers request ''Origin'') \<or>
         (\<exists>ok. check_origin (dict_get (req_headers request) ''Origin'' []) = Inr ok)"
    and "(\<not> truthy (req_headers request ''webio-session-id'') \<and>
            h = Session e target \<and> pre = [CreateSession target h]) \<or>
         (\<exists>sid. req_headers request ''webio-session-id'' = Some sid \<and> sid \<noteq> [] \<and>
            webio_sessions s sid = Some h \<and> pre = [])"
  shows "(req_method request = ''POST'' \<and> json_body request = Some event \<longrightarrow>
            snd (snd (u_webio_view target session_expire_seconds check_origin e request s)) =
              pre @ [SendClientEvent h event, Sleep (WAIT_MS_ON_POST / 1000),
                     GetTaskCommands h, Closed h]) \<and>
         (req_method request \<noteq> ''POST'' \<longrightarrow>
            snd (snd (u_webio_view target session_expire_seconds check_origin e request s)) =
              pre @ [GetTaskCommands h, Closed h]) \<and>
         (req_method request = ''POST'' \<and> json_body request = None \<longrightarrow>
            fst (u_webio_view target session_expire_seconds check_origin e request s) =
              Inl BadRequest \<and>
            snd (snd (u_webio_view target session_expire_seconds check_origin e request s)) =
              pre)"
proof -
  obtain hs where hs: "(if truthy (req_headers request ''Origin'')
      then cors_headers (dict_get (req_headers request) ''Origin'' []) check_origin (Some [])
      else Inr []) = Inr hs"
    using origin_headers_ok[of request check_origin] assms(4) by blast
  obtain s0 hs0 sid0 where
    view: "u_webio_view target session_expire_seconds check_origin e request s =
             serve_session session_expire_seconds e request hs0 sid0 h s0 pre"
    and p0: "paired s0"
    using assms(5)
  proof (elim disjE conjE exE)
    assume n: "\<not> truthy (req_headers request ''webio-session-id'')"
      and h: "h = Session e target" and pre: "pre = [CreateSession target h]"
    assume r: "\<And>hs0 sid0 s0.
        u_webio_view target session_expire_seconds check_origin e request s =
          serve_session session_expire_seconds e request hs0 sid0 h s0 pre \<Longrightarrow>
        paired s0 \<Longrightarrow> thesis"
    show thesis
      by (rule r[OF _ paired_insert[OF assms(1)]])
         (simp add: view_new_session[OF assms(2,3) n hs] start_new_session_def Let_def h pre)
  next
    fix sid
    assume k: "req_headers request ''webio-session-id'' = Some sid" and ne: "sid \<noteq> []"
      and reg: "webio_sessions s sid = Some h" and pre: "pre = []"
    assume r: "\<And>hs0 sid0 s0.
        u_webio_view target session_expire_seconds check_origin e request s =
          serve_session session_expire_seconds e request hs0 sid0 h s0 pre \<Longrightarrow>
        paired s0 \<Longrightarrow> thesis"
    show thesis
      by (rule r[OF _ assms(1)])
         (simp add: view_resume_session[OF assms(2,3) k ne reg hs] pre)
  qed
  have post: "snd (snd (u_webio_view target session_expire_seconds check_origin e request s)) =
      pre @ [SendClientEvent h event, Sleep (WAIT_MS_ON_POST / 1000), GetTaskCommands h, Closed h]"
    if "req_method request = ''POST''" and "json_body request = Some event"
    unfolding view
    by (subst serve_session_effects[OF p0, where clock = "time_now e + WAIT_MS_ON_POST / 1000"
          and ?fx1.0 = "[SendClientEvent h event, Sleep (WAIT_MS_ON_POST / 1000)]"])
       (simp_all add: client_push_def that)
  have other: "snd (snd (u_webio_view target session_expire_seconds check_origin e request s)) =
      pre @ [GetTaskCommands h, Closed h]"
    if "req_method request \<noteq> ''POST''"
    unfolding view
    by (subst serve_session_effects[OF p0, where clock = "time_now e" and ?fx1.0 = "[]"])
       (simp_all add: client_push_def that)
  have bad: "u_webio_view target session_expire_seconds check_origin e request s =
      (Inl BadRequest, s0, pre)"
    if "req_method request = ''POST''" and "json_body request = None"
    unfolding view
    by (rule serve_session_bad_request) (simp add: client_push_def that)
  show ?thesis using post other bad by simp
qed

lemma paired_s_two: "paired s_two"
  by (auto simp: paired_def s_two_def)

lemma reaches_T1:
  assumes "req_method r \<noteq> ''OPTIONS''" and "args r = Map.empty"
    and "req_headers r = [''webio-session-id'' \<mapsto> ''T1'']"
  shows "\<not> truthy (args r ''test'')"
    and "\<not> truthy (req_headers r ''Origin'') \<or>
         (\<exists>ok. (\<lambda>origin. Inr True :: py_error + bool)
                 (dict_get (req_headers r) ''Origin'' []) = Inr ok)"
    and "(\<not> truthy (req_headers r ''webio-session-id'') \<and>
            (1::nat) = Session (quiet_env 200) ''task'' \<and> [] = [CreateSession ''task'' 1]) \<or>
         (\<exists>sid. req_headers r ''webio-session-id'' = Some sid \<and> sid \<noteq> [] \<and>
            webio_sessions s_two sid = Some 1 \<and> ([]::effect list) = [])"
  using assms by (simp_all add: truthy_def s_two_def)

theorem post_event_then_wait_then_collect_witness:
  "snd (snd (u_webio_view ''task'' 60 (\<lambda>origin. Inr True) (quiet_env 200)
       (post_request [''webio-session-id'' \<mapsto> ''T1''] (JStr ''click'')) s_two)) =
     [SendClientEvent 1 (JStr ''click''), Sleep (1 / 10), GetTaskCommands 1, Closed 1] \<and>
   snd (snd (u_webio_view ''task'' 60 (\<lambda>origin. Inr True) (quiet_env 200)
       (get_request [''webio-session-id'' \<mapsto> ''T1'']) s_two)) =
     [GetTaskCommands 1, Closed 1] \<and>
   fst (u_webio_view ''task'' 60 (\<lambda>origin. Inr True) (quiet_env 200)
       ((post_request [''webio-session-id'' \<mapsto> ''T1''] JNull)\<lparr>json_body := None\<rparr>) s_two) =
     Inl BadRequest \<and>
   snd (snd (u_webio_view ''task'' 60 (\<lambda>origin. Inr True) (quiet_env 200)
       ((post_request [''webio-session-id'' \<mapsto> ''T1''] JNull)\<lparr>json_body := None\<rparr>) s_two)) = []"
proof -
  let ?p = "post_request [''webio-session-id'' \<mapsto> ''T1''] (JStr ''click'')"
  let ?g = "get_request [''webio-session-id'' \<mapsto> ''T1'']"
  let ?b = "(post_request [''webio-session-id'' \<mapsto> ''T1''] JNull)\<lparr>json_body := None\<rparr>"
  have p: "req_method ?p \<noteq> ''OPTIONS''" "args ?p = Map.empty"
      "req_headers ?p = [''webio-session-id'' \<mapsto> ''T1'']"
      "req_method ?p = ''POST''" "json_body ?p = Some (JStr ''click'')"
    by (simp_all add: post_request_def)
  have g: "req_method ?g \<noteq> ''OPTIONS''" "args ?g = Map.empty"
      "req_headers ?g = [''webio-session-id'' \<mapsto> ''T1'']" "req_method ?g \<noteq> ''POST''"
    by (simp_all add: get_request_def)
  have b: "req_method ?b \<noteq> ''OPTIONS''" "args ?b = Map.empty"
      "req_headers ?b = [''webio-session-id'' \<mapsto> ''T1'']"
      "req_method ?b = ''POST''" "json_body ?b = None"
    by (simp_all add: post_request_def)
  have w: "WAIT_MS_ON_POST / 1000 = 1 / 10" by (simp add: WAIT_MS_ON_POST_def)
  from post_event_then_wait_then_collect
         [OF paired_s_two p(1) reaches_T1[OF p(1,2,3)],
          where session_expire_seconds = 60 and event = "JStr ''click''"] p(4,5)
  have 1: "snd (snd (u_webio_view ''task'' 60 (\<lambda>origin. Inr True) (quiet_env 200) ?p s_two)) =
     [SendClientEvent 1 (JStr ''click''), Sleep (1 / 10), GetTaskCommands 1, Closed 1]"
    unfolding w by simp
  from post_event_then_wait_then_collect
         [OF paired_s_two g(1) reaches_T1[OF g(1,2,3)],
          where session_expire_seconds = 60 and event = JNull] g(4)
  have 2: "snd (snd (u_webio_view ''task'' 60 (\<lambda>origin. Inr True) (quiet_env 200) ?g s_two)) =
     [GetTaskCommands 1, Closed 1]"
    by simp
  from post_event_then_wait_then_collect
         [OF paired_s_two b(1) reaches_T1[OF b(1,2,3)],
          where session_expire_seconds = 60 and event = JNull] b(4,5)
  have 3: "fst (u_webio_view ''task'' 60 (\<lambda>origin. Inr True) (quiet_env 200) ?b s_two) =
             Inl BadRequest"
    and 4: "snd (snd (u_webio_view ''task'' 60 (\<lambda>origin. Inr True) (quiet_env 200) ?b s_two)) = []"
    by simp_all
  show ?thesis using 1 2 3 4 by (intro conjI)
qed

subsection \<open>Evaluating the view on concrete requests\<close>

lemmas view_defs =
  u_webio_view_def start_new_session_def serve_session_def client_push_def clean_up_def
  respond_def u_make_response_def jsonify_def set_headers_def u_remove_webio_session_def
  dict_delitem_def lru_delitem_def lru_setitem_def move_to_end_first_def popitem_first_def
  cors_headers_def dict_get_def truthy_def REMOVE_EXPIRED_SESSIONS_INTERVAL_def
  WAIT_MS_ON_POST_def

lemma first_quiet:
  "u_webio_view ''task'' 60 (\<lambda>origin. Inr True) (quiet_env 0) (get_request Map.empty)
      initial_state =
   (Inr \<lparr>status = 200,
         resp_headers = [(''webio-session-id'', HStr ''abcdefghijklmnopqrstuvwx'')],
         resp_body = Json (JList [])\<rparr>,
    \<lparr>webio_sessions = [''abcdefghijklmnopqrstuvwx'' \<mapsto> 7],
      webio_expire = [(''abcdefghijklmnopqrstuvwx'', 0)],
      last_check_session_expire_ts = 0\<rparr>,
    [CreateSession ''task'' 7, GetTaskCommands 7, Closed 7])"
  by (simp add: view_defs Let_def quiet_env_def get_request_def initial_state_def)

lemma resume_at_50:
  "u_webio_view ''task'' 60 (\<lambda>origin. Inr True) (quiet_env 50)
      (get_request [''webio-session-id'' \<mapsto> ''abcdefghijklmnopqrstuvwx'']) s_created =
   (Inr \<lparr>status = 200, resp_headers = [], resp_body = Json (JList [])\<rparr>,
    s_created\<lparr>last_check_session_expire_ts := 50\<rparr>,
    [GetTaskCommands 7, Closed 7])"
  by (simp add: view_defs u_remove_expired_sessions.simps quiet_env_def get_request_def
        s_created_def)

lemma sweep_at_70:
  "u_remove_expired_sessions 60 70 (s_created\<lparr>last_check_session_expire_ts := 50\<rparr>) =
     (None, \<lparr>webio_sessions = Map.empty, webio_expire = [], last_check_session_expire_ts = 50\<rparr>)"
  by (simp add: u_remove_expired_sessions.simps popitem_first_def dict_delitem_def s_created_def)

lemma first_closing:
  "u_webio_view ''task'' 60 (\<lambda>origin. Inr True) (closing_env 100) (get_request Map.empty)
      initial_state =
   (Inr \<lparr>status = 200,
         resp_headers = [(''webio-session-id'', HStr ''abcdefghijklmnopqrstuvwx'')],
         resp_body = Json (JList [])\<rparr>,
    \<lparr>webio_sessions = Map.empty, webio_expire = [], last_check_session_expire_ts = 100\<rparr>,
    [CreateSession ''task'' 7, GetTaskCommands 7, Closed 7])"
  by (simp add: view_defs u_remove_expired_sessions.simps closing_env_def quiet_env_def
        get_request_def initial_state_def)

subsection \<open>C1: a request for a registered session and its timestamp\<close>

text \<open>
  C1. The claim is that a request for a registered session moves its record to the most
  recently active end with the current time, so that a session used within the
  threshold survives a later sweep. The code writes \<open>_webio_expire\<close> only when it creates
  a session (line 112). A session created at time 0 and requested again at time 50
  keeps the timestamp 0, and the sweep at time 70 with a threshold of 60 seconds removes
  it, 20 seconds after its last request.
\<close>

theorem resume_leaves_timestamp_then_sweep_evicts:
  "fst (snd (u_webio_view ''task'' 60 (\<lambda>origin. Inr True) (quiet_env 0) (get_request Map.empty)
      initial_state)) = s_created \<and>
   u_webio_view ''task'' 60 (\<lambda>origin. Inr True) (quiet_env 50)
      (get_request [''webio-session-id'' \<mapsto> ''abcdefghijklmnopqrstuvwx'']) s_created =
     (Inr \<lparr>status = 200, resp_headers = [], resp_body = Json (JList [])\<rparr>,
      s_created\<lparr>last_check_session_expire_ts := 50\<rparr>,
      [GetTaskCommands 7, Closed 7]) \<and>
   webio_expire (s_created\<lparr>last_check_session_expire_ts := 50\<rparr>) =
     [(''abcdefghijklmnopqrstuvwx'', 0)] \<and>
   u_remove_expired_sessions 60 70 (s_created\<lparr>last_check_session_expire_ts := 50\<rparr>) =
     (None, \<lparr>webio_sessions = Map.empty, webio_expire = [], last_check_session_expire_ts = 50\<rparr>)"
  unfolding first_quiet resume_at_50 sweep_at_70
  by (simp add: s_created_def)

subsection \<open>What the sweep keeps; the headers set on a response\<close>

lemma sweep_keeps_fresh:
  assumes "paired s" and "(t, ts) \<in> set (webio_expire s)" and "c - ts < x"
  shows "webio_sessions (snd (u_remove_expired_sessions x c s)) t = webio_sessions s t"
    and "map_of (webio_expire (snd (u_remove_expired_sessions x c s))) t = Some ts"
proof -
  let ?d = "webio_expire s"
  let ?ex = "expired x c"
  have d: "distinct (map fst ?d)" using assms(1) by (simp add: paired_def)
  note run = sweep_prefix[OF d paired_subset[OF assms(1)], of x c]
  have unique: "ts' = ts" if "(t, ts') \<in> set ?d" for ts'
    using that assms(2) d by (meson eq_key_imp_eq_value)
  have notin: "t \<notin> fst ` set (takeWhile ?ex ?d)"
  proof
    assume "t \<in> fst ` set (takeWhile ?ex ?d)"
    then obtain ts' where m: "(t, ts') \<in> set (takeWhile ?ex ?d)" by auto
    then have "(t, ts') \<in> set ?d" and "?ex (t, ts')"
      by (auto dest: set_takeWhileD)
    then show False using unique assms(3) by (auto simp: expired_def)
  qed
  show "webio_sessions (snd (u_remove_expired_sessions x c s)) t = webio_sessions s t"
    unfolding run using notin by simp
  have "set ?d = set (takeWhile ?ex ?d) \<union> set (dropWhile ?ex ?d)"
    by (metis set_append takeWhile_dropWhile_id)
  then have "(t, ts) \<in> set (dropWhile ?ex ?d)"
    using assms(2) notin by force
  moreover have "distinct (map fst (dropWhile ?ex ?d))"
    using d by (metis distinct_append map_append takeWhile_dropWhile_id)
  ultimately show "map_of (webio_expire (snd (u_remove_expired_sessions x c s))) t = Some ts"
    unfolding run by simp
qed

lemma sweep_only_removes:
  assumes "paired s"
  shows "dom (webio_sessions (snd (u_remove_expired_sessions x c s))) \<subseteq> dom (webio_sessions s)"
proof -
  have d: "distinct (map fst (webio_expire s))" using assms by (simp add: paired_def)
  show ?thesis
    unfolding sweep_prefix[OF d paired_subset[OF assms], of x c]
    by (auto split: if_splits)
qed

lemma clean_up_keeps_fresh:
  assumes "paired s" and "(t, ts) \<in> set (webio_expire s)" and "c - ts < x"
  shows "webio_sessions (snd (clean_up x c s)) t = webio_sessions s t"
    and "map_of (webio_expire (snd (clean_up x c s))) t = Some ts"
    and "dom (webio_sessions (snd (clean_up x c s))) \<subseteq> dom (webio_sessions s)"
proof -
  obtain err s' where r: "u_remove_expired_sessions x c s = (err, s')"
    by (cases "u_remove_expired_sessions x c s")
  have e: "err = None" using sweep_paired(1)[OF assms(1), of x c] r by simp
  have d: "distinct (map fst (webio_expire s))" using assms(1) by (simp add: paired_def)
  have here: "map_of (webio_expire s) t = Some ts"
    using assms(2) d by simp
  show "webio_sessions (snd (clean_up x c s)) t = webio_sessions s t"
    using sweep_keeps_fresh(1)[OF assms, of ] r e by (simp add: clean_up_def)
  show "map_of (webio_expire (snd (clean_up x c s))) t = Some ts"
    using sweep_keeps_fresh(2)[OF assms] r e here by (simp add: clean_up_def)
  show "dom (webio_sessions (snd (clean_up x c s))) \<subseteq> dom (webio_sessions s)"
    using sweep_only_removes[OF assms(1), of x c] r e by (simp add: clean_up_def)
qed

lemma update_absent_key:
  "k \<notin> fst ` set acc \<Longrightarrow> AList.update k v acc = acc @ [(k, v)]"
  by (induction acc) auto

lemma foldl_update_distinct:
  "distinct (map fst (acc @ hs)) \<Longrightarrow>
   foldl (\<lambda>rh (k, v). AList.update k v rh) acc hs = acc @ hs"
proof (induction hs arbitrary: acc)
  case Nil
  then show ?case by simp
next
  case (Cons p hs)
  obtain k v where p: "p = (k, v)" by (cases p)
  have "k \<notin> fst ` set acc" using Cons.prems p by auto
  then have "AList.update k v acc = acc @ [(k, v)]" by (rule update_absent_key)
  moreover have "distinct (map fst ((acc @ [(k, v)]) @ hs))" using Cons.prems p by simp
  ultimately show ?case using Cons.IH[of "acc @ [(k, v)]"] p by simp
qed

lemma set_headers_distinct:
  "distinct (map fst hs) \<Longrightarrow>
   set_headers (jsonify v) hs = \<lparr>status = 200, resp_headers = hs, resp_body = Json v\<rparr>"
  using foldl_update_distinct[of "[]" hs] by (simp add: set_headers_def jsonify_def)

lemma cors_headers_distinct:
  "cors_headers origin c (Some []) = Inr hs \<Longrightarrow> distinct (map fst hs)"
  by (auto simp: cors_headers_def split: sum.splits if_splits)

subsection \<open>C5: \<open>_remove_webio_session\<close> of a session that is not registered\<close>

lemma remove_present_or_raises:
  assumes "paired s"
  shows "(webio_sessions s sid \<noteq> None \<longrightarrow>
            fst (u_remove_webio_session sid s) = None \<and>
            webio_sessions (snd (u_remove_webio_session sid s)) = (webio_sessions s)(sid := None) \<and>
            webio_expire (snd (u_remove_webio_session sid s)) =
              filter (\<lambda>p. fst p \<noteq> sid) (webio_expire s) \<and>
            map_of (webio_expire (snd (u_remove_webio_session sid s))) sid = None) \<and>
         (webio_sessions s sid = None \<longrightarrow>
            u_remove_webio_session sid s = (Some KeyError, s))"
proof -
  have "webio_sessions s sid \<noteq> None \<longrightarrow> map_of (webio_expire s) sid \<noteq> None"
  proof
    assume "webio_sessions s sid \<noteq> None"
    with assms have "sid \<in> fst ` set (webio_expire s)"
      by (auto simp: paired_def dom_def)
    then show "map_of (webio_expire s) sid \<noteq> None" by (simp add: map_of_eq_None_iff)
  qed
  moreover have "map_of (filter (\<lambda>p. fst p \<noteq> sid) (webio_expire s)) sid = None"
    by (auto simp: map_of_eq_None_iff)
  ultimately show ?thesis
    by (auto simp: u_remove_webio_session_def dict_delitem_def lru_delitem_def)
qed

lemma late_request_to_closed_session:
  "u_webio_view ''task'' 60 (\<lambda>origin. Inr True) (closing_env 100)
      (get_request [''webio-session-id'' \<mapsto> ''abcdefghijklmnopqrstuvwx'']) s_created =
   (Inl KeyError,
    \<lparr>webio_sessions = Map.empty, webio_expire = [], last_check_session_expire_ts = 100\<rparr>,
    [GetTaskCommands 7, Closed 7])"
  by (simp add: view_defs u_remove_expired_sessions.simps closing_env_def quiet_env_def
        get_request_def s_created_def)

text \<open>
  C5. The claim is that removing a session is idempotent: for a token that was already
  removed, or never present, it is a no-op. \<open>_remove_webio_session\<close> is two \<open>del\<close>
  statements, and the first raises \<open>KeyError\<close> for such a token. The view itself gets
  there: a session is created at time 0; the next request for it comes at time 100 and
  the session reports that it is closed. The sweep of line 127 has just removed the
  session (idle for 100 seconds, threshold 60), line 133 removes it a second time, and
  the request ends in \<open>KeyError\<close> in place of the response with the last commands.
\<close>

theorem second_removal_raises_in_view:
  "fst (snd (u_webio_view ''task'' 60 (\<lambda>origin. Inr True) (quiet_env 0) (get_request Map.empty)
      initial_state)) = s_created \<and>
   u_webio_view ''task'' 60 (\<lambda>origin. Inr True) (closing_env 100)
      (get_request [''webio-session-id'' \<mapsto> ''abcdefghijklmnopqrstuvwx'']) s_created =
     (Inl KeyError,
      \<lparr>webio_sessions = Map.empty, webio_expire = [], last_check_session_expire_ts = 100\<rparr>,
      [GetTaskCommands 7, Closed 7]) \<and>
   fst (u_remove_webio_session ''T1'' s_two) = None \<and>
   u_remove_webio_session ''T1'' (snd (u_remove_webio_session ''T1'' s_two)) =
     (Some KeyError, snd (u_remove_webio_session ''T1'' s_two)) \<and>
   u_remove_webio_session ''T1'' initial_state = (Some KeyError, initial_state)"
  unfolding first_quiet late_request_to_closed_session
  by (simp add: u_remove_webio_session_def dict_delitem_def lru_delitem_def s_two_def
        initial_state_def s_created_def)

subsection \<open>C6: a request without a session id\<close>

text \<open>
  C6 as stated fails when the new session reports that it is closed within the request:
  the response carries the new id in \<open>webio-session-id\<close>, but both entries have been
  removed again (lines 132 and 133), and the next request with that id is answered with
  \<open>close_session\<close> and reaches no session.
\<close>

theorem new_session_closed_at_once_not_resumable:
  "fst (u_webio_view ''task'' 60 (\<lambda>origin. Inr True) (closing_env 100) (get_request Map.empty)
      initial_state) =
     Inr \<lparr>status = 200,
          resp_headers = [(''webio-session-id'', HStr ''abcdefghijklmnopqrstuvwx'')],
          resp_body = Json (JList [])\<rparr> \<and>
   webio_sessions
     (fst (snd (u_webio_view ''task'' 60 (\<lambda>origin. Inr True) (closing_env 100)
        (get_request Map.empty) initial_state))) ''abcdefghijklmnopqrstuvwx'' = None \<and>
   webio_expire
     (fst (snd (u_webio_view ''task'' 60 (\<lambda>origin. Inr True) (closing_env 100)
        (get_request Map.empty) initial_state))) = [] \<and>
   fst (u_webio_view ''task'' 60 (\<lambda>origin. Inr True) (quiet_env 101)
      (get_request [''webio-session-id'' \<mapsto> ''abcdefghijklmnopqrstuvwx''])
      (fst (snd (u_webio_view ''task'' 60 (\<lambda>origin. Inr True) (closing_env 100)
         (get_request Map.empty) initial_state)))) =
     Inr \<lparr>status = 200, resp_headers = [],
          resp_body = Json (JList [JDict [(''command'', JStr ''close_session'')]])\<rparr> \<and>
   snd (snd (u_webio_view ''task'' 60 (\<lambda>origin. Inr True) (quiet_env 101)
      (get_request [''webio-session-id'' \<mapsto> ''abcdefghijklmnopqrstuvwx''])
      (fst (snd (u_webio_view ''task'' 60 (\<lambda>origin. Inr True) (closing_env 100)
         (get_request Map.empty) initial_state))))) = []"
  unfolding first_closing
  by (simp add: u_webio_view_def jsonify_def truthy_def get_request_def)

lemma view_stale_token:
  assumes "req_method r \<noteq> ''OPTIONS''" and "\<not> truthy (args r ''test'')"
    and "req_headers r ''webio-session-id'' = Some t" and "t \<noteq> []"
    and "webio_sessions s t = None"
    and "\<not> truthy (req_headers r ''Origin'') \<or>
         (\<exists>ok. c (dict_get (req_headers r) ''Origin'' []) = Inr ok)"
  shows "u_webio_view target x c e r s =
           (Inr (jsonify (JList [JDict [(''command'', JStr ''close_session'')]])), s, [])"
  using assms
  by (auto simp: u_webio_view_def cors_headers_def split: sum.splits)

lemma client_push_decodes:
  assumes "req_method r = ''POST'' \<longrightarrow> json_body r \<noteq> None"
  shows "\<exists>clock fx1. client_push e r h = Inr (clock, fx1) \<and>
           clock - time_now e \<le> WAIT_MS_ON_POST / 1000 \<and>
           (req_method r \<noteq> ''POST'' \<longrightarrow> fx1 = []) \<and>
           (\<forall>event. req_method r = ''POST'' \<and> json_body r = Some event \<longrightarrow>
              fx1 = [SendClientEvent h event, Sleep (WAIT_MS_ON_POST / 1000)])"
  using assms by (auto simp: client_push_def WAIT_MS_ON_POST_def)

lemma serve_session_result:
  assumes "paired s" and "client_push e r h = Inr (clock, fx1)"
  shows "serve_session x e r hs sid h s fx0 =
           (fst (respond e hs sid h (snd (clean_up x clock s))),
            snd (respond e hs sid h (snd (clean_up x clock s))),
            fx0 @ fx1 @ [GetTaskCommands h, Closed h])"
proof -
  obtain s1 where u: "clean_up x clock s = (None, s1)"
    using clean_up_paired(1)[OF assms(1), of x clock] by (cases "clean_up x clock s") auto
  obtain res s2 where f: "respond e hs sid h s1 = (res, s2)"
    by (cases "respond e hs sid h s1")
  show ?thesis by (simp add: serve_session_def assms(2) u f)
qed

lemma respond_open:
  "\<not> closed e h \<Longrightarrow> respond e hs sid h s = (Inr (set_headers (u_make_response e h) hs), s)"
  by (simp add: respond_def)

lemma respond_closed_registered:
  assumes "paired s" and "closed e h" and "webio_sessions s sid = Some h'"
  shows "fst (respond e hs sid h s) = Inr (set_headers (u_make_response e h) hs)"
    and "webio_sessions (snd (respond e hs sid h s)) = (webio_sessions s)(sid := None)"
    and "map_of (webio_expire (snd (respond e hs sid h s))) sid = None"
proof -
  obtain err s' where r: "u_remove_webio_session sid s = (err, s')"
    by (cases "u_remove_webio_session sid s")
  have reg: "webio_sessions s sid \<noteq> None" using assms(3) by simp
  have all: "fst (u_remove_webio_session sid s) = None \<and>
      webio_sessions (snd (u_remove_webio_session sid s)) = (webio_sessions s)(sid := None) \<and>
      webio_expire (snd (u_remove_webio_session sid s)) =
        filter (\<lambda>p. fst p \<noteq> sid) (webio_expire s) \<and>
      map_of (webio_expire (snd (u_remove_webio_session sid s))) sid = None"
    using remove_present_or_raises[OF assms(1), of sid] reg by blast
  have "err = None" using all r by simp
  moreover have "webio_sessions s' = (webio_sessions s)(sid := None)"
    using all unfolding r by simp
  moreover have "map_of (webio_expire s') sid = None"
    using conjunct2[OF conjunct2[OF conjunct2[OF all]]] unfolding r by simp
  ultimately have "err = None" and "webio_sessions s' = (webio_sessions s)(sid := None)"
    and "map_of (webio_expire s') sid = None"
    by blast+
  then show "fst (respond e hs sid h s) = Inr (set_headers (u_make_response e h) hs)"
    and "webio_sessions (snd (respond e hs sid h s)) = (webio_sessions s)(sid := None)"
    and "map_of (webio_expire (snd (respond e hs sid h s))) sid = None"
    using assms(2) r by (simp_all add: respond_def)
qed

lemma new_session_facts:
  fixes request :: request and e :: env
  assumes "paired s"
    and "req_method request \<noteq> ''OPTIONS''"
    and "\<not> truthy (args request ''test'')"
    and "\<not> truthy (req_headers request ''webio-session-id'')"
    and "\<not> truthy (req_headers request ''Origin'') \<or>
         (\<exists>ok. check_origin (dict_get (req_headers request) ''Origin'' []) = Inr ok)"
    and "req_method request = ''POST'' \<longrightarrow> json_body request \<noteq> None"
    and "WAIT_MS_ON_POST / 1000 < session_expire_seconds"
    and "u_webio_view target session_expire_seconds check_origin e request s = (result, s', fx)"
  shows "\<exists>r. result = Inr r \<and> status r = 200 \<and>
           map_of (resp_headers r) ''webio-session-id'' = Some (HStr (random_str e 24)) \<and>
           resp_body r = Json (JList (get_task_commands e (Session e target)))"
    and "req_method request \<noteq> ''POST'' \<longrightarrow>
           fx = [CreateSession target (Session e target),
                 GetTaskCommands (Session e target), Closed (Session e target)]"
    and "\<forall>event. req_method request = ''POST'' \<and> json_body request = Some event \<longrightarrow>
           fx = [CreateSession target (Session e target),
                 SendClientEvent (Session e target) event, Sleep (WAIT_MS_ON_POST / 1000),
                 GetTaskCommands (Session e target), Closed (Session e target)]"
    and "\<not> closed e (Session e target) \<longrightarrow>
           webio_sessions s' (random_str e 24) = Some (Session e target) \<and>
           map_of (webio_expire s') (random_str e 24) = Some (time_now e) \<and>
           dom (webio_sessions s') - dom (webio_sessions s) =
             {random_str e 24} - dom (webio_sessions s)"
    and "closed e (Session e target) \<longrightarrow>
           webio_sessions s' (random_str e 24) = None \<and>
           map_of (webio_expire s') (random_str e 24) = None \<and>
           dom (webio_sessions s') \<subseteq> dom (webio_sessions s)"
    and "\<not> closed e (Session e target) \<and> random_str e 24 \<noteq> [] \<longrightarrow>
         (\<forall>e2 request2 clock2 fx2.
           req_method request2 \<noteq> ''OPTIONS'' \<and> \<not> truthy (args request2 ''test'') \<and>
           req_headers request2 ''webio-session-id'' = Some (random_str e 24) \<and>
           (\<not> truthy (req_headers request2 ''Origin'') \<or>
            (\<exists>ok. check_origin (dict_get (req_headers request2) ''Origin'' []) = Inr ok)) \<and>
           client_push e2 request2 (Session e target) = Inr (clock2, fx2) \<longrightarrow>
           snd (snd (u_webio_view target session_expire_seconds check_origin e2 request2 s')) =
             fx2 @ [GetTaskCommands (Session e target), Closed (Session e target)])"
    and "closed e (Session e target) \<and> random_str e 24 \<noteq> [] \<longrightarrow>
         (\<forall>e2 request2.
           req_method request2 \<noteq> ''OPTIONS'' \<and> \<not> truthy (args request2 ''test'') \<and>
           req_headers request2 ''webio-session-id'' = Some (random_str e 24) \<and>
           (\<not> truthy (req_headers request2 ''Origin'') \<or>
            (\<exists>ok. check_origin (dict_get (req_headers request2) ''Origin'' []) = Inr ok)) \<longrightarrow>
           u_webio_view target session_expire_seconds check_origin e2 request2 s' =
             (Inr \<lparr>status = 200, resp_headers = [],
                   resp_body = Json (JList [JDict [(''command'', JStr ''close_session'')]])\<rparr>,
              s', []))"
proof -
  let ?tok = "random_str e 24"
  let ?h = "Session e target"
  let ?s1 = "s\<lparr>webio_sessions := (webio_sessions s)(?tok \<mapsto> ?h),
               webio_expire := lru_setitem ?tok (time_now e) (webio_expire s)\<rparr>"
  obtain hs where hs: "(if truthy (req_headers request ''Origin'')
      then cors_headers (dict_get (req_headers request) ''Origin'' []) check_origin (Some [])
      else Inr []) = Inr hs"
    using origin_headers_ok[of request check_origin] assms(5) by blast
  have dhs: "distinct (map fst hs)"
    using hs cors_headers_distinct by (auto split: if_splits)
  let ?hs1 = "AList.update ''webio-session-id'' (HStr ?tok) hs"
  have dhs1: "distinct (map fst ?hs1)" using dhs by (rule distinct_update)
  have p1: "paired ?s1" using assms(1) by (rule paired_insert)
  obtain clock fx1 where cp: "client_push e request ?h = Inr (clock, fx1)"
    and el: "clock - time_now e \<le> WAIT_MS_ON_POST / 1000"
    and fx_get: "req_method request \<noteq> ''POST'' \<longrightarrow> fx1 = []"
    and fx_post: "\<forall>event. req_method request = ''POST'' \<and> json_body request = Some event \<longrightarrow>
              fx1 = [SendClientEvent ?h event, Sleep (WAIT_MS_ON_POST / 1000)]"
    using client_push_decodes[OF assms(6), of e ?h] by blast
  let ?s2 = "snd (clean_up session_expire_seconds clock ?s1)"
  have p2: "paired ?s2" using p1 by (rule clean_up_paired(2))
  have mem: "(?tok, time_now e) \<in> set (webio_expire ?s1)"
    by (simp add: lru_setitem_def)
  have idle: "clock - time_now e < session_expire_seconds"
    using el assms(7) by simp
  note keep = clean_up_keeps_fresh[OF p1 mem idle]
  have reg2: "webio_sessions ?s2 ?tok = Some ?h" unfolding keep(1) by simp
  have dom2: "dom (webio_sessions ?s2) \<subseteq> insert ?tok (dom (webio_sessions s))"
    using keep(3) by simp
  have view: "u_webio_view target session_expire_seconds check_origin e request s =
        (fst (respond e ?hs1 ?tok ?h ?s2), snd (respond e ?hs1 ?tok ?h ?s2),
         [CreateSession target ?h] @ fx1 @ [GetTaskCommands ?h, Closed ?h])"
    unfolding view_new_session[OF assms(2,3,4) hs] start_new_session_def Let_def
    by (rule serve_session_result[OF p1 cp])
  have res: "result = fst (respond e ?hs1 ?tok ?h ?s2)"
    and s': "s' = snd (respond e ?hs1 ?tok ?h ?s2)"
    and fx: "fx = [CreateSession target ?h] @ fx1 @ [GetTaskCommands ?h, Closed ?h]"
    using view assms(8) by simp_all
  have "fst (respond e ?hs1 ?tok ?h ?s2) = Inr (set_headers (u_make_response e ?h) ?hs1)"
    using respond_open[where e = e and h = ?h and hs = ?hs1 and sid = ?tok and s = ?s2] respond_closed_registered(1)[OF p2 _ reg2, where hs = ?hs1 and e = e]
    by (cases "closed e ?h") simp_all
  then show "\<exists>r. result = Inr r \<and> status r = 200 \<and>
           map_of (resp_headers r) ''webio-session-id'' = Some (HStr ?tok) \<and>
           resp_body r = Json (JList (get_task_commands e ?h))"
    unfolding res u_make_response_def set_headers_distinct[OF dhs1]
    by (simp add: update_conv)
  show "req_method request \<noteq> ''POST'' \<longrightarrow>
           fx = [CreateSession target ?h, GetTaskCommands ?h, Closed ?h]"
    using fx fx_get by simp
  show "\<forall>event. req_method request = ''POST'' \<and> json_body request = Some event \<longrightarrow>
           fx = [CreateSession target ?h, SendClientEvent ?h event,
                 Sleep (WAIT_MS_ON_POST / 1000), GetTaskCommands ?h, Closed ?h]"
    using fx fx_post by simp
  have open_state: "s' = ?s2" if "\<not> closed e ?h"
    unfolding s' using respond_open[OF that] by simp
  show "\<not> closed e ?h \<longrightarrow>
           webio_sessions s' ?tok = Some ?h \<and>
           map_of (webio_expire s') ?tok = Some (time_now e) \<and>
           dom (webio_sessions s') - dom (webio_sessions s) = {?tok} - dom (webio_sessions s)"
  proof
    assume o: "\<not> closed e ?h"
    have "?tok \<in> dom (webio_sessions ?s2)" using reg2 by auto
    then have "dom (webio_sessions ?s2) - dom (webio_sessions s) = {?tok} - dom (webio_sessions s)"
      using dom2 by blast
    then show "webio_sessions s' ?tok = Some ?h \<and>
           map_of (webio_expire s') ?tok = Some (time_now e) \<and>
           dom (webio_sessions s') - dom (webio_sessions s) = {?tok} - dom (webio_sessions s)"
      unfolding open_state[OF o] using reg2 keep(2) by simp
  qed
  have closed_state: "webio_sessions s' = (webio_sessions ?s2)(?tok := None)"
      "map_of (webio_expire s') ?tok = None" if "closed e ?h"
    unfolding s' using respond_closed_registered(2,3)[OF p2 that reg2, where hs = ?hs1] by simp_all
  show "closed e ?h \<longrightarrow>
           webio_sessions s' ?tok = None \<and>
           map_of (webio_expire s') ?tok = None \<and>
           dom (webio_sessions s') \<subseteq> dom (webio_sessions s)"
  proof
    assume c: "closed e ?h"
    have "dom (webio_sessions s') \<subseteq> dom (webio_sessions s)"
      unfolding closed_state(1)[OF c] using dom2 by auto
    then show "webio_sessions s' ?tok = None \<and>
           map_of (webio_expire s') ?tok = None \<and>
           dom (webio_sessions s') \<subseteq> dom (webio_sessions s)"
      using closed_state[OF c] by simp
  qed
  have p': "paired s'"
    using u_webio_view_paired[OF assms(1), of target session_expire_seconds check_origin e request]
      assms(8) by simp
  show "\<not> closed e ?h \<and> ?tok \<noteq> [] \<longrightarrow>
         (\<forall>e2 request2 clock2 fx2.
           req_method request2 \<noteq> ''OPTIONS'' \<and> \<not> truthy (args request2 ''test'') \<and>
           req_headers request2 ''webio-session-id'' = Some ?tok \<and>
           (\<not> truthy (req_headers request2 ''Origin'') \<or>
            (\<exists>ok. check_origin (dict_get (req_headers request2) ''Origin'' []) = Inr ok)) \<and>
           client_push e2 request2 ?h = Inr (clock2, fx2) \<longrightarrow>
           snd (snd (u_webio_view target session_expire_seconds check_origin e2 request2 s')) =
             fx2 @ [GetTaskCommands ?h, Closed ?h])"
  proof (intro allI impI, elim conjE)
    fix e2 :: env and request2 :: request and clock2 fx2
    assume o: "\<not> closed e ?h" and ne: "?tok \<noteq> []"
      and m: "req_method request2 \<noteq> ''OPTIONS''" and t: "\<not> truthy (args request2 ''test'')"
      and k: "req_headers request2 ''webio-session-id'' = Some ?tok"
      and og: "\<not> truthy (req_headers request2 ''Origin'') \<or>
            (\<exists>ok. check_origin (dict_get (req_headers request2) ''Origin'' []) = Inr ok)"
      and c2: "client_push e2 request2 ?h = Inr (clock2, fx2)"
    obtain hs2 where hs2: "(if truthy (req_headers request2 ''Origin'')
        then cors_headers (dict_get (req_headers request2) ''Origin'' []) check_origin (Some [])
        else Inr []) = Inr hs2"
      using origin_headers_ok[of request2 check_origin] og by blast
    have here: "webio_sessions s' ?tok = Some ?h"
      unfolding open_state[OF o] by (rule reg2)
    show "snd (snd (u_webio_view target session_expire_seconds check_origin e2 request2 s')) =
             fx2 @ [GetTaskCommands ?h, Closed ?h]"
      unfolding view_resume_session[OF m t k ne here hs2]
      using serve_session_effects[OF p' c2] by simp
  qed
  show "closed e ?h \<and> ?tok \<noteq> [] \<longrightarrow>
         (\<forall>e2 request2.
           req_method request2 \<noteq> ''OPTIONS'' \<and> \<not> truthy (args request2 ''test'') \<and>
           req_headers request2 ''webio-session-id'' = Some ?tok \<and>
           (\<not> truthy (req_headers request2 ''Origin'') \<or>
            (\<exists>ok. check_origin (dict_get (req_headers request2) ''Origin'' []) = Inr ok)) \<longrightarrow>
           u_webio_view target session_expire_seconds check_origin e2 request2 s' =
             (Inr \<lparr>status = 200, resp_headers = [],
                   resp_body = Json (JList [JDict [(''command'', JStr ''close_session'')]])\<rparr>,
              s', []))"
  proof (intro allI impI, elim conjE)
    fix e2 :: env and request2 :: request
    assume c: "closed e ?h" and ne: "?tok \<noteq> []"
      and m: "req_method request2 \<noteq> ''OPTIONS''" and t: "\<not> truthy (args request2 ''test'')"
      and k: "req_headers request2 ''webio-session-id'' = Some ?tok"
      and og: "\<not> truthy (req_headers request2 ''Origin'') \<or>
            (\<exists>ok. check_origin (dict_get (req_headers request2) ''Origin'' []) = Inr ok)"
    have gone: "webio_sessions s' ?tok = None"
      using closed_state(1)[OF c] by simp
    show "u_webio_view target session_expire_seconds check_origin e2 request2 s' =
             (Inr \<lparr>status = 200, resp_headers = [],
                   resp_body = Json (JList [JDict [(''command'', JStr ''close_session'')]])\<rparr>,
              s', [])"
      using view_stale_token[where c = check_origin, OF m t k ne gone og,
          where target = target and x = session_expire_seconds and e = e2]
      by (simp add: jsonify_def)
  qed
qed

text \<open>
  C6, amended. Take a request that is not \<open>OPTIONS\<close>, has no \<open>test\<close> argument and no (or
  an empty) \<open>webio-session-id\<close>, in a state where the two dictionaries have the same keys,
  with an origin predicate that returns a truth value, a body that decodes when the
  method is \<open>POST\<close>, and \<open>session_expire_seconds\<close> above the 0.1 seconds of the wait on
  \<open>POST\<close>. Then one session is constructed for the target, and the response has status
  200, the id from \<open>random_str(24)\<close> in \<open>webio-session-id\<close>, and the commands of that
  session. If the session does not report that it is closed, the id is registered
  afterwards with that session object and the time of the request, it is the only key
  that can be new (an id that was registered already is overwritten), and a following
  request with that id (the id not empty, the request not \<open>OPTIONS\<close>, without \<open>test\<close>, its
  origin accepted or rejected by the predicate, its body decoding on \<open>POST\<close>) calls that
  same object. If the session reports that it is closed, the id is in neither
  dictionary afterwards, no key is new, and such a following request is answered with
  \<open>close_session\<close>.
\<close>

theorem new_session_created_and_resumable:
  fixes request :: request and e :: env
  assumes "paired s"
    and "req_method request \<noteq> ''OPTIONS''"
    and "\<not> truthy (args request ''test'')"
    and "\<not> truthy (req_headers request ''webio-session-id'')"
    and "\<not> truthy (req_headers request ''Origin'') \<or>
         (\<exists>ok. check_origin (dict_get (req_headers request) ''Origin'' []) = Inr ok)"
    and "req_method request = ''POST'' \<longrightarrow> json_body request \<noteq> None"
    and "WAIT_MS_ON_POST / 1000 < session_expire_seconds"
    and "u_webio_view target session_expire_seconds check_origin e request s = (result, s', fx)"
  shows "(\<exists>r. result = Inr r \<and> status r = 200 \<and>
           map_of (resp_headers r) ''webio-session-id'' = Some (HStr (random_str e 24)) \<and>
           resp_body r = Json (JList (get_task_commands e (Session e target)))) \<and>
         (req_method request \<noteq> ''POST'' \<longrightarrow>
           fx = [CreateSession target (Session e target),
                 GetTaskCommands (Session e target), Closed (Session e target)]) \<and>
         (\<forall>event. req_method request = ''POST'' \<and> json_body request = Some event \<longrightarrow>
           fx = [CreateSession target (Session e target),
                 SendClientEvent (Session e target) event, Sleep (WAIT_MS_ON_POST / 1000),
                 GetTaskCommands (Session e target), Closed (Session e target)]) \<and>
         (\<not> closed e (Session e target) \<longrightarrow>
           webio_sessions s' (random_str e 24) = Some (Session e target) \<and>
           map_of (webio_expire s') (random_str e 24) = Some (time_now e) \<and>
           dom (webio_sessions s') - dom (webio_sessions s) =
             {random_str e 24} - dom (webio_sessions s)) \<and>
         (closed e (Session e target) \<longrightarrow>
           webio_sessions s' (random_str e 24) = None \<and>
           map_of (webio_expire s') (random_str e 24) = None \<and>
           dom (webio_sessions s') \<subseteq> dom (webio_sessions s)) \<and>
         (\<not> closed e (Session e target) \<and> random_str e 24 \<noteq> [] \<longrightarrow>
           (\<forall>e2 request2 clock2 fx2.
             req_method request2 \<noteq> ''OPTIONS'' \<and> \<not> truthy (args request2 ''test'') \<and>
             req_headers request2 ''webio-session-id'' = Some (random_str e 24) \<and>
             (\<not> truthy (req_headers request2 ''Origin'') \<or>
              (\<exists>ok. check_origin (dict_get (req_headers request2) ''Origin'' []) = Inr ok)) \<and>
             client_push e2 request2 (Session e target) = Inr (clock2, fx2) \<longrightarrow>
             snd (snd (u_webio_view target session_expire_seconds check_origin e2 request2 s')) =
               fx2 @ [GetTaskCommands (Session e target), Closed (Session e target)])) \<and>
         (closed e (Session e target) \<and> random_str e 24 \<noteq> [] \<longrightarrow>
           (\<forall>e2 request2.
             req_method request2 \<noteq> ''OPTIONS'' \<and> \<not> truthy (args request2 ''test'') \<and>
             req_headers request2 ''webio-session-id'' = Some (random_str e 24) \<and>
             (\<not> truthy (req_headers request2 ''Origin'') \<or>
              (\<exists>ok. check_origin (dict_get (req_headers request2) ''Origin'' []) = Inr ok)) \<longrightarrow>
             u_webio_view target session_expire_seconds check_origin e2 request2 s' =
               (Inr \<lparr>status = 200, resp_headers = [],
                     resp_body = Json (JList [JDict [(''command'', JStr ''close_session'')]])\<rparr>,
                s', [])))"
  by (intro conjI) (rule new_session_facts[OF assms])+

lemma first_quiet_100:
  "u_webio_view ''task'' 60 (\<lambda>origin. Inr True) (quiet_env 100) (get_request Map.empty)
      initial_state =
   (Inr \<lparr>status = 200,
         resp_headers = [(''webio-session-id'', HStr ''abcdefghijklmnopqrstuvwx'')],
         resp_body = Json (JList [])\<rparr>,
    \<lparr>webio_sessions = [''abcdefghijklmnopqrstuvwx'' \<mapsto> 7],
      webio_expire = [(''abcdefghijklmnopqrstuvwx'', 100)],
      last_check_session_expire_ts = 100\<rparr>,
    [CreateSession ''task'' 7, GetTaskCommands 7, Closed 7])"
  by (simp add: view_defs Let_def u_remove_expired_sessions.simps quiet_env_def get_request_def
        initial_state_def)

theorem new_session_created_and_resumable_witness:
  "webio_sessions
     (fst (snd (u_webio_view ''task'' 60 (\<lambda>origin. Inr True) (quiet_env 100)
        (get_request Map.empty) initial_state))) ''abcdefghijklmnopqrstuvwx'' = Some 7 \<and>
   map_of (webio_expire
     (fst (snd (u_webio_view ''task'' 60 (\<lambda>origin. Inr True) (quiet_env 100)
        (get_request Map.empty) initial_state)))) ''abcdefghijklmnopqrstuvwx'' = Some 100 \<and>
   snd (snd (u_webio_view ''task'' 60 (\<lambda>origin. Inr True) (quiet_env 101)
      (get_request [''webio-session-id'' \<mapsto> ''abcdefghijklmnopqrstuvwx''])
      (fst (snd (u_webio_view ''task'' 60 (\<lambda>origin. Inr True) (quiet_env 100)
         (get_request Map.empty) initial_state))))) =
     [GetTaskCommands 7, Closed 7] \<and>
   webio_sessions
     (fst (snd (u_webio_view ''task'' 60 (\<lambda>origin. Inr True) (closing_env 100)
        (get_request Map.empty) initial_state))) ''abcdefghijklmnopqrstuvwx'' = None"
proof -
  let ?c = "\<lambda>origin::string. Inr True :: py_error + bool"
  let ?r = "get_request Map.empty"
  let ?r2 = "get_request [''webio-session-id'' \<mapsto> ''abcdefghijklmnopqrstuvwx'']"
  let ?s1 = "\<lparr>webio_sessions = [''abcdefghijklmnopqrstuvwx'' \<mapsto> 7],
              webio_expire = [(''abcdefghijklmnopqrstuvwx'', 100)],
              last_check_session_expire_ts = 100\<rparr>"
  let ?s0 = "\<lparr>webio_sessions = Map.empty, webio_expire = [],
              last_check_session_expire_ts = 100\<rparr>"
  have h: "req_method ?r \<noteq> ''OPTIONS''" "\<not> truthy (args ?r ''test'')"
    "\<not> truthy (req_headers ?r ''webio-session-id'')"
    "\<not> truthy (req_headers ?r ''Origin'') \<or>
       (\<exists>ok. ?c (dict_get (req_headers ?r) ''Origin'' []) = Inr ok)"
    "req_method ?r = ''POST'' \<longrightarrow> json_body ?r \<noteq> None"
    "WAIT_MS_ON_POST / 1000 < (60::rat)"
    by (simp_all add: get_request_def truthy_def WAIT_MS_ON_POST_def)
  have env: "\<not> closed (quiet_env 100) (Session (quiet_env 100) ''task'')"
    "random_str (quiet_env 100) 24 = ''abcdefghijklmnopqrstuvwx''"
    "Session (quiet_env 100) ''task'' = 7" "time_now (quiet_env 100) = 100"
    "closed (closing_env 100) (Session (closing_env 100) ''task'')"
    "random_str (closing_env 100) 24 = ''abcdefghijklmnopqrstuvwx''"
    by (simp_all add: quiet_env_def closing_env_def)
  have h2: "req_method ?r2 \<noteq> ''OPTIONS'' \<and> \<not> truthy (args ?r2 ''test'') \<and>
      req_headers ?r2 ''webio-session-id'' = Some ''abcdefghijklmnopqrstuvwx'' \<and>
      (\<not> truthy (req_headers ?r2 ''Origin'') \<or>
       (\<exists>ok. ?c (dict_get (req_headers ?r2) ''Origin'' []) = Inr ok)) \<and>
      client_push (quiet_env 101) ?r2 7 = Inr (101, [])"
    by (simp add: get_request_def truthy_def client_push_def quiet_env_def)
  note open_case = new_session_created_and_resumable[OF paired_initial_state h first_quiet_100]
  note closed_case = new_session_created_and_resumable[OF paired_initial_state h first_closing]
  have a: "webio_sessions ?s1 ''abcdefghijklmnopqrstuvwx'' = Some 7"
    and b: "map_of (webio_expire ?s1) ''abcdefghijklmnopqrstuvwx'' = Some 100"
    using open_case env(1) unfolding env(2,3,4) by blast+
  have "\<forall>e2 request2 clock2 fx2.
           req_method request2 \<noteq> ''OPTIONS'' \<and> \<not> truthy (args request2 ''test'') \<and>
           req_headers request2 ''webio-session-id'' = Some ''abcdefghijklmnopqrstuvwx'' \<and>
           (\<not> truthy (req_headers request2 ''Origin'') \<or>
            (\<exists>ok. ?c (dict_get (req_headers request2) ''Origin'' []) = Inr ok)) \<and>
           client_push e2 request2 7 = Inr (clock2, fx2) \<longrightarrow>
           snd (snd (u_webio_view ''task'' 60 ?c e2 request2 ?s1)) =
             fx2 @ [GetTaskCommands 7, Closed 7]"
    using open_case env(1) unfolding env(2,3,4) by simp
  with h2 have c: "snd (snd (u_webio_view ''task'' 60 ?c (quiet_env 101) ?r2 ?s1)) =
      [] @ [GetTaskCommands 7, Closed 7]"
    by blast
  have d: "webio_sessions ?s0 ''abcdefghijklmnopqrstuvwx'' = None"
    using closed_case env(5) unfolding env(6) by blast
  show ?thesis
    unfolding first_quiet_100 first_closing using a b c d by simp
qed

end
